theory Spec2Isabelle
  imports Complex_Main "HOL-Library.Word" "HOL-Library.Monad_Syntax"
begin

section \<open>Numeric model\<close>

text \<open>
  The C++ sources compute with \<^verbatim>\<open>float\<close> and \<^verbatim>\<open>double\<close>. This development reads
  every such quantity as an exact real number. A result that is not a real number in
  the program (a quotient by zero, the normalisation of a zero-length vector: the
  IEEE values NaN and infinity) is the value \<open>None\<close> of an option type here, so that
  every such case is a branch of the model and not a hidden total-function default.
  The shading function has a second reading in binary64 arithmetic further down, for
  the one property on which the two readings differ.
  The constant \<^verbatim>\<open>M_PI\<close> is the number \<open>pi\<close>. Values of type \<^verbatim>\<open>int\<close> (image
  dimensions, pixel coordinates, framebuffer indices) are unbounded integers: the
  sources do no arithmetic on them beyond the index \<open>(j * width + i) * 3\<close>, which stays
  below the size of the framebuffer.
\<close>

section \<open>Vectors, points and colours (vec3.h)\<close>

text \<open>
  Modelled from the spec: the header \<^verbatim>\<open>vec3.h\<close> (class \<^verbatim>\<open>vec3\<close> with its
  operators, \<^verbatim>\<open>dot\<close>, \<^verbatim>\<open>cross\<close>, \<^verbatim>\<open>unit_vector\<close>) is not among the sources.
  Section 3 of the specification describes it as a 3-component real-valued tuple with
  componentwise add and subtract, scalar multiply and divide, dot product, cross
  product, length, squared length and unit-normalisation, the last one undefined on a
  vector of length zero. The components are named after the array \<^verbatim>\<open>e[0..2]\<close> that
  \<^verbatim>\<open>camera.cpp\<close> writes to; \<^verbatim>\<open>x()\<close>, \<^verbatim>\<open>y()\<close>, \<^verbatim>\<open>z()\<close> read the same cells.
\<close>

datatype vec3 = Vec3 (e0: real) (e1: real) (e2: real)

type_synonym point3 = vec3
type_synonym color = vec3

instantiation vec3 :: real_vector
begin

definition zero_vec3 :: vec3 where
  "zero_vec3 = Vec3 0 0 0"

definition plus_vec3 :: "vec3 \<Rightarrow> vec3 \<Rightarrow> vec3" where
  "plus_vec3 u v = Vec3 (e0 u + e0 v) (e1 u + e1 v) (e2 u + e2 v)"

definition minus_vec3 :: "vec3 \<Rightarrow> vec3 \<Rightarrow> vec3" where
  "minus_vec3 u v = Vec3 (e0 u - e0 v) (e1 u - e1 v) (e2 u - e2 v)"

definition uminus_vec3 :: "vec3 \<Rightarrow> vec3" where
  "uminus_vec3 v = Vec3 (- e0 v) (- e1 v) (- e2 v)"

definition scaleR_vec3 :: "real \<Rightarrow> vec3 \<Rightarrow> vec3" where
  "scaleR_vec3 t v = Vec3 (t * e0 v) (t * e1 v) (t * e2 v)"

instance
proof
  fix a b c :: vec3 and s t :: real
  show "a + b + c = a + (b + c)" by (simp add: plus_vec3_def)
  show "a + b = b + a" by (simp add: plus_vec3_def)
  show "0 + a = a" by (simp add: plus_vec3_def zero_vec3_def)
  show "- a + a = 0" by (simp add: plus_vec3_def uminus_vec3_def zero_vec3_def)
  show "a - b = a + - b" by (simp add: plus_vec3_def minus_vec3_def uminus_vec3_def)
  show "s *\<^sub>R (a + b) = s *\<^sub>R a + s *\<^sub>R b"
    by (simp add: plus_vec3_def scaleR_vec3_def algebra_simps)
  show "(s + t) *\<^sub>R a = s *\<^sub>R a + t *\<^sub>R a"
    by (simp add: plus_vec3_def scaleR_vec3_def algebra_simps)
  show "s *\<^sub>R t *\<^sub>R a = (s * t) *\<^sub>R a" by (simp add: scaleR_vec3_def)
  show "1 *\<^sub>R a = a" by (simp add: scaleR_vec3_def)
qed

end

definition dot :: "vec3 \<Rightarrow> vec3 \<Rightarrow> real" where
  "dot u v = e0 u * e0 v + e1 u * e1 v + e2 u * e2 v"

definition cross :: "vec3 \<Rightarrow> vec3 \<Rightarrow> vec3" where
  "cross u v = Vec3 (e1 u * e2 v - e2 u * e1 v)
                    (e2 u * e0 v - e0 u * e2 v)
                    (e0 u * e1 v - e1 u * e0 v)"

definition length_squared :: "vec3 \<Rightarrow> real" where
  "length_squared v = e0 v * e0 v + e1 v * e1 v + e2 v * e2 v"

definition length_vec :: "vec3 \<Rightarrow> real" where
  "length_vec v = sqrt (length_squared v)"

text \<open>
  \<^verbatim>\<open>v / t\<close>: the quotient of a vector by a scalar. The operator itself is unguarded;
  every caller below divides by a constant or checks the divisor first.
\<close>

definition divide_vec :: "vec3 \<Rightarrow> real \<Rightarrow> vec3" where
  "divide_vec v t = (1 / t) *\<^sub>R v"

text \<open>
  \<^verbatim>\<open>unit_vector(v) = v / v.length()\<close>. On a vector of length zero the program divides
  by zero; the model returns \<open>None\<close>.
\<close>

definition unit_vector :: "vec3 \<Rightarrow> vec3 option" where
  "unit_vector v = (if length_vec v = 0 then None else Some (divide_vec v (length_vec v)))"

section \<open>Rays (ray.h)\<close>

text \<open>
  Modelled from the spec: the header \<^verbatim>\<open>ray.h\<close> is not among the sources. Section 3
  of the specification gives a ray as an origin and a direction, with
  \<open>at(t) = origin + t * direction\<close> (named \<open>at_ray\<close> here, \<open>at\<close> being taken).
\<close>

datatype ray = Ray (origin: point3) (direction: vec3)

definition at_ray :: "ray \<Rightarrow> real \<Rightarrow> point3" where
  "at_ray r t = origin r + t *\<^sub>R direction r"

section \<open>Shading (main.cpp)\<close>

text \<open>
  \<^verbatim>\<open>hit_sphere\<close>, lines 52 to 63. The quotient by \<open>2 * a\<close> is the only place where
  the function leaves the reals: \<open>a = 0\<close> together with a non-negative discriminant.
\<close>

definition hit_sphere :: "point3 \<Rightarrow> real \<Rightarrow> ray \<Rightarrow> real option" where
  "hit_sphere center radius r =
     (let originSphere = origin r - center;
          a = length_squared (direction r);
          b = 2 * dot originSphere (direction r);
          c = length_squared originSphere - radius * radius;
          discriminant = b * b - 4 * a * c
      in if discriminant < 0 then Some (- 1)
         else if 2 * a = 0 then None
         else Some ((- b - sqrt discriminant) / (2 * a)))"

text \<open>
  \<^verbatim>\<open>ray_color\<close>, lines 65 to 78. The miss branch (lines 74 to 77) is the function
  \<open>sky\<close>: it is reached when \<^verbatim>\<open>t > 0.0\<close> is false, which in the program includes a
  NaN \<^verbatim>\<open>t\<close> (here: \<^verbatim>\<open>hit_sphere\<close> returning \<open>None\<close>).
\<close>

definition sky :: "vec3 \<Rightarrow> color option" where
  "sky d =
     (case unit_vector d of
        None \<Rightarrow> None
      | Some unit_direction \<Rightarrow>
          (let a = 0.5 * (e1 unit_direction + 1.0)
           in Some ((1.0 - a) *\<^sub>R Vec3 1.0 1.0 1.0 + a *\<^sub>R Vec3 0.5 0.7 1.0)))"

definition ray_color :: "ray \<Rightarrow> color option" where
  "ray_color r =
     (case hit_sphere (Vec3 0 0 (- 1)) 0.5 r of
        None \<Rightarrow> sky (direction r)
      | Some t \<Rightarrow>
          if t > 0.0 then
            (case unit_vector (at_ray r t - Vec3 0 0 (- 1)) of
               None \<Rightarrow> None
             | Some N \<Rightarrow> Some (0.5 *\<^sub>R Vec3 (e0 N + 1) (e1 N + 1) (e2 N + 1)))
          else sky (direction r))"

section \<open>The camera (camera.h, camera.cpp)\<close>

text \<open>
  The private data members of class \<^verbatim>\<open>Camera\<close>, in the order of \<^verbatim>\<open>camera.h\<close>, without
  the trailing underscore of the C++ names.
\<close>

record camera =
  image_width :: int
  image_height :: int
  camera_center :: point3
  focal_length :: real
  yaw :: real
  pitch :: real
  front :: vec3
  camera_right :: vec3
  camera_up :: vec3
  world_up :: vec3
  viewport_height :: real
  viewport_width :: real
  viewport_u :: vec3
  viewport_v :: vec3
  pixel_delta_u :: vec3
  pixel_delta_v :: vec3
  viewport_upper_left :: point3
  pixel00_loc :: point3

definition radians :: "real \<Rightarrow> real" where
  "radians degrees = degrees * pi / 180"

text \<open>
  \<^verbatim>\<open>Camera::update_camera_vectors\<close>, lines 52 to 81. The three normalisations and the
  two quotients by an image dimension are the places where the program can leave
  the reals; each is a \<open>None\<close> branch.
\<close>

definition update_camera_vectors :: "camera \<Rightarrow> camera option" where
  "update_camera_vectors c =
     (let yaw_rad = radians (yaw c);
          pitch_rad = radians (pitch c)
      in case unit_vector (Vec3 (cos yaw_rad * cos pitch_rad)
                                (sin pitch_rad)
                                (sin yaw_rad * cos pitch_rad)) of
           None \<Rightarrow> None
         | Some front' \<Rightarrow>
        (case unit_vector (cross front' (world_up c)) of
           None \<Rightarrow> None
         | Some camera_right' \<Rightarrow>
        (case unit_vector (cross camera_right' front') of
           None \<Rightarrow> None
         | Some camera_up' \<Rightarrow>
        if image_height c = 0 \<or> image_width c = 0 then None
        else
          let viewport_width' =
                viewport_height c * (real_of_int (image_width c) / real_of_int (image_height c));
              viewport_u' = viewport_width' *\<^sub>R camera_right';
              viewport_v' = viewport_height c *\<^sub>R (- camera_up');
              pixel_delta_u' = divide_vec viewport_u' (real_of_int (image_width c));
              pixel_delta_v' = divide_vec viewport_v' (real_of_int (image_height c));
              viewport_center = camera_center c + focal_length c *\<^sub>R front';
              viewport_upper_left' =
                viewport_center - divide_vec viewport_u' 2 - divide_vec viewport_v' 2;
              pixel00_loc' = viewport_upper_left' + 0.5 *\<^sub>R (pixel_delta_u' + pixel_delta_v')
          in Some (c\<lparr>front := front',
                     camera_right := camera_right',
                     camera_up := camera_up',
                     viewport_width := viewport_width',
                     viewport_u := viewport_u',
                     viewport_v := viewport_v',
                     pixel_delta_u := pixel_delta_u',
                     pixel_delta_v := pixel_delta_v',
                     viewport_upper_left := viewport_upper_left',
                     pixel00_loc := pixel00_loc'\<rparr>))))"

text \<open>
  The constructor, lines 12 to 24. The members that the initialiser list leaves out are
  default-constructed and then overwritten by \<^verbatim>\<open>update_camera_vectors\<close>; they are zero
  here.
\<close>

definition Camera :: "int \<Rightarrow> int \<Rightarrow> point3 \<Rightarrow> real \<Rightarrow> camera option" where
  "Camera w h position fl =
     update_camera_vectors
       \<lparr>image_width = w, image_height = h, camera_center = position, focal_length = fl,
        yaw = - 90, pitch = 0, front = Vec3 0 0 (- 1),
        camera_right = 0, camera_up = 0, world_up = Vec3 0 1 0,
        viewport_height = 2, viewport_width = 0, viewport_u = 0, viewport_v = 0,
        pixel_delta_u = 0, pixel_delta_v = 0, viewport_upper_left = 0, pixel00_loc = 0\<rparr>"

text \<open>\<^verbatim>\<open>Camera::get_ray\<close>, lines 26 to 30: a \<^verbatim>\<open>const\<close> member function.\<close>

definition get_ray :: "camera \<Rightarrow> int \<Rightarrow> int \<Rightarrow> ray" where
  "get_ray c pixel_x pixel_y =
     (let pixel_center = pixel00_loc c + real_of_int pixel_x *\<^sub>R pixel_delta_u c
                                       + real_of_int pixel_y *\<^sub>R pixel_delta_v c;
          ray_direction = pixel_center - camera_center c
      in Ray (camera_center c) ray_direction)"

text \<open>\<^verbatim>\<open>Camera::move\<close>, lines 32 to 35.\<close>

definition move :: "camera \<Rightarrow> vec3 \<Rightarrow> camera option" where
  "move c offset = update_camera_vectors (c\<lparr>camera_center := camera_center c + offset\<rparr>)"

text \<open>\<^verbatim>\<open>Camera::rotate\<close>, lines 37 to 46 (\<open>rotate\<close> is a list function of the library).\<close>

definition rotate_camera :: "camera \<Rightarrow> real \<Rightarrow> real \<Rightarrow> camera option" where
  "rotate_camera c delta_yaw delta_pitch =
     (let c1 = c\<lparr>yaw := yaw c + delta_yaw, pitch := pitch c + delta_pitch\<rparr>;
          c2 = (if pitch c1 > 89 then c1\<lparr>pitch := 89\<rparr> else c1);
          c3 = (if pitch c2 < - 89 then c2\<lparr>pitch := - 89\<rparr> else c2)
      in update_camera_vectors c3)"

text \<open>\<^verbatim>\<open>Camera::set_position\<close>, lines 48 to 50.\<close>

definition set_position :: "camera \<Rightarrow> point3 \<Rightarrow> camera" where
  "set_position c position = c\<lparr>camera_center := position\<rparr>"

section \<open>The render sweep (main.cpp, \<^verbatim>\<open>render_scene\<close>)\<close>

text \<open>
  \<^verbatim>\<open>std::clamp(v, lo, hi)\<close> of the C++ standard library:
  \<^verbatim>\<open>(v < lo) ? lo : (hi < v) ? hi : v\<close>.
\<close>

definition clamp :: "real \<Rightarrow> real \<Rightarrow> real \<Rightarrow> real" where
  "clamp v lo hi = (if v < lo then lo else if hi < v then hi else v)"

text \<open>
  \<^verbatim>\<open>static_cast<unsigned char>\<close> of a \<^verbatim>\<open>double\<close>: the fractional part is discarded
  (rounding toward zero); the conversion is undefined when the truncated value is not
  one of \<open>0..255\<close>, which is \<open>None\<close> here.
\<close>

definition trunc_toward_zero :: "real \<Rightarrow> int" where
  "trunc_toward_zero x = (if 0 \<le> x then \<lfloor>x\<rfloor> else \<lceil>x\<rceil>)"

definition to_uchar :: "real \<Rightarrow> 8 word option" where
  "to_uchar x = (let n = trunc_toward_zero x in if 0 \<le> n \<and> n \<le> 255 then Some (word_of_int n) else None)"

text \<open>
  \<^verbatim>\<open>framebuffer[k] = v\<close> on a \<^verbatim>\<open>std::vector<unsigned char>\<close>: undefined outside the
  vector's bounds.
\<close>

definition store :: "8 word list \<Rightarrow> int \<Rightarrow> 8 word \<Rightarrow> 8 word list option" where
  "store framebuffer k v =
     (if 0 \<le> k \<and> k < int (length framebuffer) then Some (framebuffer[nat k := v]) else None)"

text \<open>
  The body of the inner loop of \<^verbatim>\<open>render_scene\<close>, lines 163 to 168, for the pixel in
  column \<open>i\<close> of row \<open>j\<close>. A colour that is not real-valued (NaN in the program) has no
  defined conversion to a byte.
\<close>

definition render_pixel ::
    "camera \<Rightarrow> int \<Rightarrow> int \<Rightarrow> int \<Rightarrow> 8 word list \<Rightarrow> 8 word list option" where
  "render_pixel cam w j i framebuffer =
     (let r = get_ray cam i j
      in case ray_color r of
           None \<Rightarrow> None
         | Some pixel_color \<Rightarrow>
             (let idx = (j * w + i) * 3
              in case to_uchar (256 * clamp (e0 pixel_color) 0.0 0.999) of
                   None \<Rightarrow> None
                 | Some b0 \<Rightarrow>
                (case store framebuffer (idx + 0) b0 of
                   None \<Rightarrow> None
                 | Some fb0 \<Rightarrow>
                (case to_uchar (256 * clamp (e1 pixel_color) 0.0 0.999) of
                   None \<Rightarrow> None
                 | Some b1 \<Rightarrow>
                (case store fb0 (idx + 1) b1 of
                   None \<Rightarrow> None
                 | Some fb1 \<Rightarrow>
                (case to_uchar (256 * clamp (e2 pixel_color) 0.0 0.999) of
                   None \<Rightarrow> None
                 | Some b2 \<Rightarrow> store fb1 (idx + 2) b2))))))"

text \<open>
  A counting loop \<^verbatim>\<open>for (int k = 0; k < n; k++) body(k)\<close> over a state, stopping at
  the first undefined step.
\<close>

fun for_loop :: "nat list \<Rightarrow> (nat \<Rightarrow> 's \<Rightarrow> 's option) \<Rightarrow> 's \<Rightarrow> 's option" where
  "for_loop [] body s = Some s"
| "for_loop (k # ks) body s = (case body k s of None \<Rightarrow> None | Some s' \<Rightarrow> for_loop ks body s')"

text \<open>
  \<^verbatim>\<open>render_scene\<close>, lines 160 to 171: the lambda captures the camera, the image size
  and the framebuffer by reference; they are parameters here and the framebuffer is
  returned.
\<close>

definition render_scene ::
    "camera \<Rightarrow> int \<Rightarrow> int \<Rightarrow> 8 word list \<Rightarrow> 8 word list option" where
  "render_scene cam w h framebuffer =
     for_loop [0..<nat h]
       (\<lambda>j. for_loop [0..<nat w] (\<lambda>i. render_pixel cam w (int j) (int i)))
       framebuffer"

text \<open>
  The quantisation as the specification words it: the truncation of
  \<open>256 * clamp(c, 0.0, 0.999)\<close>, as an 8-bit value. It is compared with the bytes that
  \<open>render_pixel\<close> stores.
\<close>

definition clamp_then_scale :: "real \<Rightarrow> 8 word" where
  "clamp_then_scale c = word_of_int (trunc_toward_zero (256 * clamp c 0.0 0.999))"

text \<open>
  The state of the framebuffer when the sweep has written the first \<open>n\<close> pixels in
  row-major order: each of them holds the three quantised channels of its colour
  \<open>col i j\<close> (column \<open>i\<close>, row \<open>j\<close>), and the length is unchanged.
\<close>

definition swept :: "nat \<Rightarrow> (nat \<Rightarrow> nat \<Rightarrow> color) \<Rightarrow> 8 word list \<Rightarrow> nat \<Rightarrow> 8 word list \<Rightarrow> bool" where
  "swept W col fb n fb' \<longleftrightarrow>
     length fb' = length fb \<and>
     (\<forall>p<n. fb' ! (p * 3) = clamp_then_scale (e0 (col (p mod W) (p div W)))
          \<and> fb' ! (p * 3 + 1) = clamp_then_scale (e1 (col (p mod W) (p div W)))
          \<and> fb' ! (p * 3 + 2) = clamp_then_scale (e2 (col (p mod W) (p div W))))"

section \<open>Reachable camera states and call sequences\<close>

text \<open>
  The camera states that a program can reach through the constructor followed by calls
  of \<^verbatim>\<open>move\<close> and \<^verbatim>\<open>rotate\<close>.
\<close>

inductive reachable :: "camera \<Rightarrow> bool" where
  construct: "Camera w h position fl = Some c \<Longrightarrow> reachable c"
| moved: "reachable c \<Longrightarrow> move c offset = Some c' \<Longrightarrow> reachable c'"
| rotated: "reachable c \<Longrightarrow> rotate_camera c delta_yaw delta_pitch = Some c' \<Longrightarrow> reachable c'"

text \<open>A sequence of \<^verbatim>\<open>rotate\<close> calls, each given as the pair of its two arguments.\<close>

fun rotate_calls :: "camera \<Rightarrow> (real \<times> real) list \<Rightarrow> camera option" where
  "rotate_calls c [] = Some c"
| "rotate_calls c (d # ds) =
     (case rotate_camera c (fst d) (snd d) of None \<Rightarrow> None | Some c' \<Rightarrow> rotate_calls c' ds)"

text \<open>
  The derived members of a camera are up to date with its pose when recomputing them
  changes nothing.
\<close>

definition up_to_date :: "camera \<Rightarrow> bool" where
  "up_to_date c \<longleftrightarrow> update_camera_vectors c = Some c"

text \<open>
  The camera of Scenario C of the specification, written out: 2 by 1 pixels, at the
  origin, focal length 1, in the pose the constructor gives it.
\<close>

definition camera_2x1 :: camera where
  "camera_2x1 =
     \<lparr>image_width = 2, image_height = 1, camera_center = Vec3 0 0 0, focal_length = 1,
      yaw = - 90, pitch = 0, front = Vec3 0 0 (- 1),
      camera_right = Vec3 1 0 0, camera_up = Vec3 0 1 0, world_up = Vec3 0 1 0,
      viewport_height = 2, viewport_width = 4, viewport_u = Vec3 4 0 0, viewport_v = Vec3 0 (- 2) 0,
      pixel_delta_u = Vec3 2 0 0, pixel_delta_v = Vec3 0 (- 2) 0,
      viewport_upper_left = Vec3 (- 2) 1 (- 1), pixel00_loc = Vec3 (- 1) 0 (- 1)\<rparr>"

section \<open>The shading function in binary64 arithmetic\<close>

text \<open>
  A second reading of \<^verbatim>\<open>hit_sphere\<close> and \<^verbatim>\<open>ray_color\<close>, in which a \<^verbatim>\<open>double\<close> is a
  real number that IEEE 754 binary64 represents and every operation rounds its exact
  result: to the nearest representable value, a tie to the one with an even
  significand, with gradual underflow below \<open>2 powi (-1022)\<close>. It shows where the exact
  reading and the program part. A result that is not a finite number in the program
  (overflow, a quotient by zero, the root of a negative number) is \<open>None\<close>; the two
  zeros are not told apart.
\<close>

text \<open>The integer nearest to \<open>y\<close>, the even one of the two when \<open>y\<close> lies half-way.\<close>

definition round_even :: "real \<Rightarrow> int" where
  "round_even y =
     (let f = \<lfloor>y\<rfloor>; r = y - of_int f
      in if r < 1 / 2 then f else if 1 / 2 < r then f + 1 else if even f then f else f + 1)"

text \<open>The exponent \<open>e\<close> with \<open>2 powi e \<le> |x| < 2 powi (e + 1)\<close>.\<close>

definition binade :: "real \<Rightarrow> int" where
  "binade x = \<lfloor>log 2 \<bar>x\<bar>\<rfloor>"

text \<open>
  Rounding to binary64: 53 significant bits, so the unit in the last place of the
  binade \<open>e\<close> is \<open>2 powi (e - 52)\<close>, with \<open>e\<close> not below \<open>-1022\<close>; a rounded magnitude of
  \<open>2 powi 1024\<close> or more is an overflow.
\<close>

definition to_double :: "real \<Rightarrow> real option" where
  "to_double x =
     (if x = 0 then Some 0
      else let e = max (binade x) (- 1022);
               u = 2 powi (e - 52);
               y = of_int (round_even (x / u)) * u
           in if \<bar>y\<bar> < 2 powi 1024 then Some y else None)"

text \<open>
  The binary64 values are the reals that rounding leaves unchanged; a ray of the
  program has six of them as coordinates.
\<close>

definition is_double :: "real \<Rightarrow> bool" where
  "is_double x \<longleftrightarrow> to_double x = Some x"

definition double_ray :: "ray \<Rightarrow> bool" where
  "double_ray r \<longleftrightarrow>
     is_double (e0 (origin r)) \<and> is_double (e1 (origin r)) \<and> is_double (e2 (origin r)) \<and>
     is_double (e0 (direction r)) \<and> is_double (e1 (direction r)) \<and> is_double (e2 (direction r))"

text \<open>The operators \<^verbatim>\<open>+\<close>, \<^verbatim>\<open>-\<close>, \<^verbatim>\<open>*\<close>, \<^verbatim>\<open>/\<close> and \<^verbatim>\<open>sqrt\<close> on \<^verbatim>\<open>double\<close>.\<close>

definition fadd :: "real \<Rightarrow> real \<Rightarrow> real option" where
  "fadd x y = to_double (x + y)"

definition fsub :: "real \<Rightarrow> real \<Rightarrow> real option" where
  "fsub x y = to_double (x - y)"

definition fmul :: "real \<Rightarrow> real \<Rightarrow> real option" where
  "fmul x y = to_double (x * y)"

definition fdiv :: "real \<Rightarrow> real \<Rightarrow> real option" where
  "fdiv x y = (if y = 0 then None else to_double (x / y))"

definition fsqrt :: "real \<Rightarrow> real option" where
  "fsqrt x = (if x < 0 then None else to_double (sqrt x))"

text \<open>
  Modelled from the spec: the operations of \<^verbatim>\<open>vec3.h\<close>, which is not among the
  sources, on \<^verbatim>\<open>double\<close> components. Each follows the shape of its exact counterpart
  above, one rounding per arithmetic operation, sums taken from left to right, and
  \<open>v / t\<close> as \<open>(1 / t) * v\<close> like \<open>divide_vec\<close>.
\<close>

definition minus_d :: "vec3 \<Rightarrow> vec3 \<Rightarrow> vec3 option" where
  "minus_d u v =
     do { x \<leftarrow> fsub (e0 u) (e0 v);
          y \<leftarrow> fsub (e1 u) (e1 v);
          z \<leftarrow> fsub (e2 u) (e2 v);
          Some (Vec3 x y z) }"

definition plus_d :: "vec3 \<Rightarrow> vec3 \<Rightarrow> vec3 option" where
  "plus_d u v =
     do { x \<leftarrow> fadd (e0 u) (e0 v);
          y \<leftarrow> fadd (e1 u) (e1 v);
          z \<leftarrow> fadd (e2 u) (e2 v);
          Some (Vec3 x y z) }"

definition scale_d :: "real \<Rightarrow> vec3 \<Rightarrow> vec3 option" where
  "scale_d t v =
     do { x \<leftarrow> fmul t (e0 v);
          y \<leftarrow> fmul t (e1 v);
          z \<leftarrow> fmul t (e2 v);
          Some (Vec3 x y z) }"

definition dot_d :: "vec3 \<Rightarrow> vec3 \<Rightarrow> real option" where
  "dot_d u v =
     do { xx \<leftarrow> fmul (e0 u) (e0 v);
          yy \<leftarrow> fmul (e1 u) (e1 v);
          zz \<leftarrow> fmul (e2 u) (e2 v);
          s \<leftarrow> fadd xx yy;
          fadd s zz }"

definition length_squared_d :: "vec3 \<Rightarrow> real option" where
  "length_squared_d v =
     do { xx \<leftarrow> fmul (e0 v) (e0 v);
          yy \<leftarrow> fmul (e1 v) (e1 v);
          zz \<leftarrow> fmul (e2 v) (e2 v);
          s \<leftarrow> fadd xx yy;
          fadd s zz }"

definition length_d :: "vec3 \<Rightarrow> real option" where
  "length_d v = do { l \<leftarrow> length_squared_d v; fsqrt l }"

definition divide_d :: "vec3 \<Rightarrow> real \<Rightarrow> vec3 option" where
  "divide_d v t = do { k \<leftarrow> fdiv 1 t; scale_d k v }"

definition unit_vector_d :: "vec3 \<Rightarrow> vec3 option" where
  "unit_vector_d v = do { l \<leftarrow> length_d v; divide_d v l }"

definition at_d :: "ray \<Rightarrow> real \<Rightarrow> point3 option" where
  "at_d r t = do { s \<leftarrow> scale_d t (direction r); plus_d (origin r) s }"

text \<open>\<^verbatim>\<open>hit_sphere\<close>, lines 52 to 63, operation by operation.\<close>

definition hit_sphere_d :: "point3 \<Rightarrow> real \<Rightarrow> ray \<Rightarrow> real option" where
  "hit_sphere_d center radius r =
     do { originSphere \<leftarrow> minus_d (origin r) center;
          a \<leftarrow> length_squared_d (direction r);
          d \<leftarrow> dot_d originSphere (direction r);
          b \<leftarrow> fmul 2 d;
          oo \<leftarrow> length_squared_d originSphere;
          rr \<leftarrow> fmul radius radius;
          c \<leftarrow> fsub oo rr;
          bb \<leftarrow> fmul b b;
          a4 \<leftarrow> fmul 4 a;
          ac \<leftarrow> fmul a4 c;
          discriminant \<leftarrow> fsub bb ac;
          if discriminant < 0 then Some (- 1)
          else do { s \<leftarrow> fsqrt discriminant;
                    n \<leftarrow> fsub (- b) s;
                    a2 \<leftarrow> fmul 2 a;
                    fdiv n a2 } }"

text \<open>
  \<^verbatim>\<open>ray_color\<close>, lines 65 to 78: the hit branch (lines 70 and 71) is \<open>normal_color_d\<close>,
  the miss branch (lines 74 to 77) is \<open>sky_d\<close>; the literal \<^verbatim>\<open>0.7\<close> is the binary64
  value nearest to it. Where \<^verbatim>\<open>hit_sphere\<close> has no finite value the model has none.
\<close>

definition normal_color_d :: "ray \<Rightarrow> real \<Rightarrow> color option" where
  "normal_color_d r t =
     do { p \<leftarrow> at_d r t;
          q \<leftarrow> minus_d p (Vec3 0 0 (- 1));
          N \<leftarrow> unit_vector_d q;
          x \<leftarrow> fadd (e0 N) 1;
          y \<leftarrow> fadd (e1 N) 1;
          z \<leftarrow> fadd (e2 N) 1;
          scale_d 0.5 (Vec3 x y z) }"

definition sky_d :: "vec3 \<Rightarrow> color option" where
  "sky_d d =
     do { unit_direction \<leftarrow> unit_vector_d d;
          y1 \<leftarrow> fadd (e1 unit_direction) 1.0;
          a \<leftarrow> fmul 0.5 y1;
          w \<leftarrow> fsub 1.0 a;
          white \<leftarrow> scale_d w (Vec3 1.0 1.0 1.0);
          k \<leftarrow> to_double 0.7;
          blue \<leftarrow> scale_d a (Vec3 0.5 k 1.0);
          plus_d white blue }"

definition ray_color_d :: "ray \<Rightarrow> color option" where
  "ray_color_d r =
     (case hit_sphere_d (Vec3 0 0 (- 1)) 0.5 r of
        None \<Rightarrow> None
      | Some t \<Rightarrow> if t > 0.0 then normal_color_d r t else sky_d (direction r))"

text \<open>
  A ray with binary64 coordinates whose origin is inside the sphere of centre
  \<open>(0, 0, -1)\<close> and radius 0.5 by about \<open>3.4e-19\<close> in squared distance, pointing at
  the centre: origin \<open>(-0.4280984826291118, 0.2520986776650527, -0.943626727164516)\<close>.
\<close>

definition near_surface_ray :: ray where
  "near_surface_ray =
     Ray (Vec3 (- 7711936667385371 / 18014398509481984)
               (567675755396463 / 2251799813685248)
               (- 4249716976834955 / 4503599627370496))
         (Vec3 (7711936667385371 / 18014398509481984)
               (- 567675755396463 / 2251799813685248)
               (- 253882650535541 / 4503599627370496))"

section \<open>Vector algebra\<close>

lemma vec3_eq_iff: "u = v \<longleftrightarrow> e0 u = e0 v \<and> e1 u = e1 v \<and> e2 u = e2 v"
  by (cases u; cases v) simp

lemma e_plus [simp]: "e0 (u + v) = e0 u + e0 v" "e1 (u + v) = e1 u + e1 v" "e2 (u + v) = e2 u + e2 v"
  by (simp_all add: plus_vec3_def)
lemma e_minus [simp]: "e0 (u - v) = e0 u - e0 v" "e1 (u - v) = e1 u - e1 v" "e2 (u - v) = e2 u - e2 v"
  by (simp_all add: minus_vec3_def)
lemma e_uminus [simp]: "e0 (- v) = - e0 v" "e1 (- v) = - e1 v" "e2 (- v) = - e2 v"
  by (simp_all add: uminus_vec3_def)
lemma e_scaleR [simp]: "e0 (t *\<^sub>R v) = t * e0 v" "e1 (t *\<^sub>R v) = t * e1 v" "e2 (t *\<^sub>R v) = t * e2 v"
  by (simp_all add: scaleR_vec3_def)
lemma e_zero [simp]: "e0 (0::vec3) = 0" "e1 (0::vec3) = 0" "e2 (0::vec3) = 0"
  by (simp_all add: zero_vec3_def)
lemma e_divide [simp]: "e0 (divide_vec v t) = e0 v / t" "e1 (divide_vec v t) = e1 v / t" "e2 (divide_vec v t) = e2 v / t"
  by (simp_all add: divide_vec_def)

lemma length_squared_nonneg: "0 \<le> length_squared v"
  by (simp add: length_squared_def)

lemma length_squared_eq_0_iff: "length_squared v = 0 \<longleftrightarrow> v = 0"
  by (auto simp: length_squared_def vec3_eq_iff add_nonneg_eq_0_iff)

lemma length_vec_eq_0_iff: "length_vec v = 0 \<longleftrightarrow> v = 0"
  by (simp add: length_vec_def length_squared_eq_0_iff)

lemma length_squared_scaleR: "length_squared (t *\<^sub>R v) = t * t * length_squared v"
  by (simp add: length_squared_def algebra_simps)

lemma length_vec_eq_1_iff: "length_vec v = 1 \<longleftrightarrow> length_squared v = 1"
  by (simp add: length_vec_def)

lemma unit_vector_Some_iff:
  "unit_vector v = Some u \<longleftrightarrow> v \<noteq> 0 \<and> u = (1 / length_vec v) *\<^sub>R v"
  by (auto simp: unit_vector_def length_vec_eq_0_iff divide_vec_def)

lemma unit_vector_length:
  assumes "unit_vector v = Some u" shows "length_squared u = 1"
proof -
  from assms have nz: "v \<noteq> 0" and u: "u = (1 / length_vec v) *\<^sub>R v"
    by (simp_all add: unit_vector_Some_iff)
  have pos: "0 < length_squared v"
    using nz length_squared_nonneg [of v] length_squared_eq_0_iff [of v] by linarith
  have "length_vec v * length_vec v = length_squared v"
    using pos by (simp add: length_vec_def)
  then show ?thesis
    using pos by (simp add: u length_squared_scaleR length_vec_def)
qed

lemma dot_cross_left: "dot (cross a b) a = 0"
  by (simp add: dot_def cross_def algebra_simps)

lemma dot_cross_right: "dot (cross a b) b = 0"
  by (simp add: dot_def cross_def algebra_simps)

lemma dot_scaleR_left: "dot (t *\<^sub>R a) b = t * dot a b"
  by (simp add: dot_def algebra_simps)

lemma dot_commute: "dot a b = dot b a"
  by (simp add: dot_def algebra_simps)

lemma lagrange: "length_squared (cross a b) = length_squared a * length_squared b - dot a b * dot a b"
  by (simp add: length_squared_def cross_def dot_def algebra_simps)

lemma spherical_unit:
  fixes a b c s :: real
  assumes "a * a + b * b = 1" and "s * s + c * c = 1"
  shows "(a * c) * (a * c) + s * s + (b * c) * (b * c) = 1"
proof -
  have "(a * c) * (a * c) + s * s + (b * c) * (b * c) = c * c * (a * a + b * b) + s * s"
    by (simp add: algebra_simps)
  also have "\<dots> = 1"
    unfolding assms(1) using assms(2) by simp
  finally show ?thesis .
qed

lemma front_raw_unit:
  "length_squared (Vec3 (cos y * cos p) (sin p) (sin y * cos p)) = 1"
proof -
  have y: "cos y * cos y + sin y * sin y = 1"
    using sin_cos_squared_add2 [of y] by (simp add: power2_eq_square)
  have p: "sin p * sin p + cos p * cos p = 1"
    using sin_cos_squared_add [of p] by (simp add: power2_eq_square)
  show ?thesis
    unfolding length_squared_def vec3.sel by (rule spherical_unit [OF y p])
qed

lemma unit_vector_of_unit: "length_squared v = 1 \<Longrightarrow> unit_vector v = Some v"
  by (cases v) (simp add: unit_vector_def length_vec_def divide_vec_def scaleR_vec3_def)

section \<open>What the recomputation returns\<close>

lemma update_camera_vectors_fields:
  assumes "update_camera_vectors c = Some c'"
  shows "image_width c' = image_width c" "image_height c' = image_height c"
    "camera_center c' = camera_center c" "focal_length c' = focal_length c"
    "yaw c' = yaw c" "pitch c' = pitch c" "world_up c' = world_up c"
    "viewport_height c' = viewport_height c"
    "image_width c \<noteq> 0" "image_height c \<noteq> 0"
  using assms
  by (auto simp: update_camera_vectors_def Let_def split: option.splits if_splits)

lemma update_camera_vectors_basis:
  assumes "update_camera_vectors c = Some c'"
  shows "unit_vector (Vec3 (cos (radians (yaw c)) * cos (radians (pitch c)))
                           (sin (radians (pitch c)))
                           (sin (radians (yaw c)) * cos (radians (pitch c)))) = Some (front c')"
    "unit_vector (cross (front c') (world_up c)) = Some (camera_right c')"
    "unit_vector (cross (camera_right c') (front c')) = Some (camera_up c')"
  using assms
  by (auto simp: update_camera_vectors_def Let_def split: option.splits if_splits)

lemma update_camera_vectors_viewport:
  assumes "update_camera_vectors c = Some c'"
  shows "viewport_width c' = viewport_height c * (real_of_int (image_width c) / real_of_int (image_height c))"
    "viewport_u c' = viewport_width c' *\<^sub>R camera_right c'"
    "viewport_v c' = viewport_height c *\<^sub>R (- camera_up c')"
    "pixel_delta_u c' = divide_vec (viewport_u c') (real_of_int (image_width c))"
    "pixel_delta_v c' = divide_vec (viewport_v c') (real_of_int (image_height c))"
    "viewport_upper_left c' = camera_center c + focal_length c *\<^sub>R front c'
        - divide_vec (viewport_u c') 2 - divide_vec (viewport_v c') 2"
    "pixel00_loc c' = viewport_upper_left c' + 0.5 *\<^sub>R (pixel_delta_u c' + pixel_delta_v c')"
  using assms
  by (auto simp: update_camera_vectors_def Let_def split: option.splits if_splits)

lemma update_camera_center:
  "update_camera_vectors (c\<lparr>camera_center := p\<rparr>) =
     map_option (\<lambda>c'. c'\<lparr>camera_center := p,
                          viewport_upper_left := viewport_upper_left c' + (p - camera_center c),
                          pixel00_loc := pixel00_loc c' + (p - camera_center c)\<rparr>)
       (update_camera_vectors c)"
  by (auto simp: update_camera_vectors_def Let_def vec3_eq_iff split: option.splits)

lemma cos_radians_pos:
  assumes "- 89 \<le> p" and "p \<le> 89"
  shows "0 < cos (radians p)"
proof -
  have "0 < (p + 90) * pi" and "0 < (90 - p) * pi"
    using assms pi_gt_zero by simp_all
  then have lo: "- (90 * pi) < p * pi" and hi: "p * pi < 90 * pi"
    by (simp_all add: algebra_simps)
  have "- (pi / 2) < radians p"
    using lo by (simp add: radians_def)
  moreover have "radians p < pi / 2"
    using hi by (simp add: radians_def)
  ultimately show ?thesis by (rule cos_gt_zero_pi)
qed

lemma cross_world_up: "cross f (Vec3 0 1 0) = Vec3 (- e2 f) 0 (e0 f)"
  by (simp add: cross_def)

lemma update_camera_vectors_defined:
  assumes w: "image_width c \<noteq> 0" and h: "image_height c \<noteq> 0"
    and up: "world_up c = Vec3 0 1 0"
    and cp: "cos (radians (pitch c)) \<noteq> 0"
  shows "\<exists>c'. update_camera_vectors c = Some c'"
proof -
  define f where "f = Vec3 (cos (radians (yaw c)) * cos (radians (pitch c)))
                           (sin (radians (pitch c)))
                           (sin (radians (yaw c)) * cos (radians (pitch c)))"
  have f1: "length_squared f = 1"
    unfolding f_def by (rule front_raw_unit)
  have uf: "unit_vector f = Some f"
    using f1 by (rule unit_vector_of_unit)
  have "e0 (cross f (world_up c)) \<noteq> 0 \<or> e2 (cross f (world_up c)) \<noteq> 0"
  proof (rule ccontr)
    assume "\<not> ?thesis"
    then have "sin (radians (yaw c)) = 0" "cos (radians (yaw c)) = 0"
      using cp by (simp_all add: up cross_world_up f_def)
    then show False
      using sin_cos_squared_add [of "radians (yaw c)"] by simp
  qed
  then have "cross f (world_up c) \<noteq> 0"
    by (auto simp: vec3_eq_iff)
  then obtain r where ur: "unit_vector (cross f (world_up c)) = Some r"
    by (auto simp: unit_vector_Some_iff)
  have r1: "length_squared r = 1"
    using ur by (rule unit_vector_length)
  have "r = (1 / length_vec (cross f (world_up c))) *\<^sub>R cross f (world_up c)"
    using ur by (simp add: unit_vector_Some_iff)
  then have "dot r f = 0"
    by (metis dot_scaleR_left dot_cross_left mult_zero_right)
  then have "length_squared (cross r f) = 1"
    by (simp add: lagrange r1 f1)
  then have "cross r f \<noteq> 0"
    using length_squared_eq_0_iff [of "cross r f"] by auto
  then obtain u where uu: "unit_vector (cross r f) = Some u"
    by (auto simp: unit_vector_Some_iff)
  show ?thesis
    using uf ur uu w h by (simp add: update_camera_vectors_def Let_def f_def [symmetric])
qed

lemma update_camera_vectors_orthonormal:
  assumes "update_camera_vectors c = Some c'"
  shows "dot (front c') (camera_right c') = 0"
    and "dot (front c') (camera_up c') = 0"
    and "dot (camera_right c') (camera_up c') = 0"
    and "length_vec (front c') = 1"
    and "length_vec (camera_right c') = 1"
    and "length_vec (camera_up c') = 1"
proof -
  note b = update_camera_vectors_basis [OF assms]
  have r: "camera_right c' = (1 / length_vec (cross (front c') (world_up c))) *\<^sub>R cross (front c') (world_up c)"
    using b(2) by (simp add: unit_vector_Some_iff)
  have u: "camera_up c' = (1 / length_vec (cross (camera_right c') (front c'))) *\<^sub>R cross (camera_right c') (front c')"
    using b(3) by (simp add: unit_vector_Some_iff)
  have "dot (camera_right c') (front c') = 0"
    by (subst r) (simp only: dot_scaleR_left dot_cross_left mult_zero_right)
  then show "dot (front c') (camera_right c') = 0"
    by (simp add: dot_commute)
  have "dot (camera_up c') (front c') = 0"
    by (subst u) (simp only: dot_scaleR_left dot_cross_right mult_zero_right)
  then show "dot (front c') (camera_up c') = 0"
    by (simp add: dot_commute)
  have "dot (camera_up c') (camera_right c') = 0"
    by (subst u) (simp only: dot_scaleR_left dot_cross_left mult_zero_right)
  then show "dot (camera_right c') (camera_up c') = 0"
    by (simp add: dot_commute)
  show "length_vec (front c') = 1" "length_vec (camera_right c') = 1" "length_vec (camera_up c') = 1"
    using b by (simp_all add: length_vec_eq_1_iff unit_vector_length)
qed

section \<open>The basis and the pitch of reachable cameras\<close>

lemma update_camera_vectors_idem:
  assumes "update_camera_vectors c = Some c'"
  shows "update_camera_vectors c' = Some c'"
  using assms
  by (auto simp: update_camera_vectors_def Let_def split: option.splits if_splits)

lemma rotate_camera_fields:
  assumes "rotate_camera c dy dp = Some c'"
  shows "image_width c' = image_width c" "image_height c' = image_height c"
    "world_up c' = world_up c" "yaw c' = yaw c + dy"
    "pitch c' = (if pitch c + dp > 89 then 89 else if pitch c + dp < - 89 then - 89 else pitch c + dp)"
  using assms
  by (auto simp: rotate_camera_def Let_def dest: update_camera_vectors_fields split: if_splits)

lemma rotate_camera_defined:
  assumes "image_width c \<noteq> 0" "image_height c \<noteq> 0" "world_up c = Vec3 0 1 0"
  shows "\<exists>c'. rotate_camera c dy dp = Some c'"
  unfolding rotate_camera_def Let_def
  by (rule update_camera_vectors_defined)
     (use assms in \<open>auto simp: less_imp_neq [OF cos_radians_pos, THEN not_sym]\<close>)

lemma move_defined:
  assumes "image_width c \<noteq> 0" "image_height c \<noteq> 0" "world_up c = Vec3 0 1 0"
    "- 89 \<le> pitch c" "pitch c \<le> 89"
  shows "\<exists>c'. move c offset = Some c'"
  unfolding move_def
  by (rule update_camera_vectors_defined)
     (use assms in \<open>auto simp: less_imp_neq [OF cos_radians_pos, THEN not_sym]\<close>)

lemma Camera_fields:
  assumes "Camera w h position fl = Some c"
  shows "image_width c = w" "image_height c = h" "world_up c = Vec3 0 1 0" "pitch c = 0" "yaw c = - 90"
    "w \<noteq> 0" "h \<noteq> 0" "camera_center c = position" "focal_length c = fl" "viewport_height c = 2"
  using update_camera_vectors_fields [OF assms [unfolded Camera_def]]
  by simp_all

lemma reachable_invariant:
  assumes "reachable c"
  shows "image_width c \<noteq> 0 \<and> image_height c \<noteq> 0 \<and> world_up c = Vec3 0 1 0
         \<and> - 89 \<le> pitch c \<and> pitch c \<le> 89"
  using assms
proof (induction rule: reachable.induct)
  case (construct w h position fl c)
  then show ?case by (simp add: Camera_fields)
next
  case (moved c offset c')
  from update_camera_vectors_fields [OF moved.hyps(2) [unfolded move_def]] moved.IH
  show ?case by simp
next
  case (rotated c delta_yaw delta_pitch c')
  from rotate_camera_fields [OF rotated.hyps(2)] rotated.IH
  show ?case by simp
qed

lemma reachable_updated:
  assumes "reachable c"
  shows "\<exists>c0. update_camera_vectors c0 = Some c"
  using assms
  by (cases rule: reachable.cases) (auto simp: Camera_def move_def rotate_camera_def Let_def)

text \<open>
  Claim C1. Every camera state reached by the constructor followed by any sequence of
  \<^verbatim>\<open>move\<close> and \<^verbatim>\<open>rotate\<close> calls has pairwise orthogonal basis vectors \<open>front\<close>,
  \<open>camera_right\<close> and \<open>camera_up\<close> (each dot product is 0), each of length 1, over the
  reals. From such a state every further \<^verbatim>\<open>move\<close> and \<^verbatim>\<open>rotate\<close> completes.
\<close>

theorem camera_basis_orthonormal:
  assumes "reachable c"
  shows "dot (front c) (camera_right c) = 0
       \<and> dot (front c) (camera_up c) = 0
       \<and> dot (camera_right c) (camera_up c) = 0
       \<and> length_vec (front c) = 1
       \<and> length_vec (camera_right c) = 1
       \<and> length_vec (camera_up c) = 1
       \<and> (\<forall>offset. \<exists>c'. move c offset = Some c')
       \<and> (\<forall>delta_yaw delta_pitch. \<exists>c'. rotate_camera c delta_yaw delta_pitch = Some c')"
proof -
  obtain c0 where c0: "update_camera_vectors c0 = Some c"
    using reachable_updated [OF assms] by blast
  note inv = reachable_invariant [OF assms]
  have "\<exists>c'. move c offset = Some c'" for offset
    using inv by (intro move_defined) simp_all
  moreover have "\<exists>c'. rotate_camera c dy dp = Some c'" for dy dp
    using inv by (intro rotate_camera_defined) simp_all
  ultimately show ?thesis
    using update_camera_vectors_orthonormal [OF c0] by blast
qed

lemma rotate_calls_clamped:
  assumes "image_width c \<noteq> 0" "image_height c \<noteq> 0" "world_up c = Vec3 0 1 0"
    "- 89 \<le> pitch c" "pitch c \<le> 89"
  shows "\<exists>c'. rotate_calls c ds = Some c' \<and> - 89 \<le> pitch c' \<and> pitch c' \<le> 89"
  using assms
proof (induction ds arbitrary: c)
  case Nil
  then show ?case by simp
next
  case (Cons d ds)
  obtain c1 where c1: "rotate_camera c (fst d) (snd d) = Some c1"
    using rotate_camera_defined [OF Cons.prems(1-3)] by blast
  note f = rotate_camera_fields [OF c1]
  have "\<exists>c'. rotate_calls c1 ds = Some c' \<and> - 89 \<le> pitch c' \<and> pitch c' \<le> 89"
    by (rule Cons.IH) (use f Cons.prems in simp_all)
  then show ?case by (simp add: c1)
qed

text \<open>
  Claim C2. From a camera that the constructor returned (pitch 0), every sequence of
  \<^verbatim>\<open>rotate\<close> calls completes and leaves the pitch within \<open>[-89, 89]\<close>; a list \<open>ds\<close>
  of calls stands for any prefix of a longer one, so the bound holds after each call.
  The single call \<^verbatim>\<open>rotate(0, 200)\<close> leaves the pitch at exactly 89.
\<close>

theorem rotate_pitch_clamped:
  assumes "Camera w h position fl = Some c0"
  shows "(\<exists>c. rotate_calls c0 ds = Some c \<and> - 89 \<le> pitch c \<and> pitch c \<le> 89)
       \<and> (\<exists>c1. rotate_camera c0 0 200 = Some c1 \<and> pitch c1 = 89)"
proof -
  note f = Camera_fields [OF assms]
  have "\<exists>c. rotate_calls c0 ds = Some c \<and> - 89 \<le> pitch c \<and> pitch c \<le> 89"
    by (rule rotate_calls_clamped) (use f in simp_all)
  moreover obtain c1 where c1: "rotate_camera c0 0 200 = Some c1"
    using rotate_camera_defined [of c0 0 200] f by auto
  have "pitch c1 = 89"
    using rotate_camera_fields(5) [OF c1] f by simp
  ultimately show ?thesis using c1 by simp
qed

lemma radians_values: "radians (- 90) = - (pi / 2)" "radians 0 = 0"
  by (simp_all add: radians_def)

lemma unit_vector_axis:
  "unit_vector (Vec3 0 0 (- 1)) = Some (Vec3 0 0 (- 1))"
  "unit_vector (Vec3 1 0 0) = Some (Vec3 1 0 0)"
  "unit_vector (Vec3 0 1 0) = Some (Vec3 0 1 0)"
  by (simp_all add: unit_vector_of_unit length_squared_def)

lemma Camera_2x1: "Camera 2 1 (Vec3 0 0 0) 1 = Some camera_2x1"
  by (simp add: Camera_def update_camera_vectors_def Let_def radians_values cross_def unit_vector_axis
      camera_2x1_def divide_vec_def scaleR_vec3_def plus_vec3_def minus_vec3_def uminus_vec3_def
      zero_vec3_def)

text \<open>
  The camera that \<open>Camera 2 1 (0, 0, 0) 1\<close> returns is reachable; its basis is
  \<open>(0, 0, -1)\<close>, \<open>(1, 0, 0)\<close>, \<open>(0, 1, 0)\<close>.
\<close>

theorem camera_basis_orthonormal_witness:
  "reachable camera_2x1
   \<and> dot (front camera_2x1) (camera_right camera_2x1) = 0
   \<and> dot (front camera_2x1) (camera_up camera_2x1) = 0
   \<and> dot (camera_right camera_2x1) (camera_up camera_2x1) = 0
   \<and> length_vec (front camera_2x1) = 1
   \<and> length_vec (camera_right camera_2x1) = 1
   \<and> length_vec (camera_up camera_2x1) = 1
   \<and> (\<forall>offset. \<exists>c'. move camera_2x1 offset = Some c')
   \<and> (\<forall>delta_yaw delta_pitch. \<exists>c'. rotate_camera camera_2x1 delta_yaw delta_pitch = Some c')"
proof -
  have h: "reachable camera_2x1"
    by (rule reachable.construct [OF Camera_2x1])
  show ?thesis
    using h camera_basis_orthonormal [OF h] by simp
qed

text \<open>Three \<^verbatim>\<open>rotate\<close> calls on that camera, the first one \<^verbatim>\<open>rotate(0, 200)\<close>.\<close>

theorem rotate_pitch_clamped_witness:
  "Camera 2 1 (Vec3 0 0 0) 1 = Some camera_2x1
   \<and> (\<exists>c. rotate_calls camera_2x1 [(0, 200), (10, - 300), (5, 20)] = Some c
          \<and> - 89 \<le> pitch c \<and> pitch c \<le> 89)
   \<and> (\<exists>c1. rotate_camera camera_2x1 0 200 = Some c1 \<and> pitch c1 = 89)"
  using Camera_2x1 rotate_pitch_clamped [OF Camera_2x1, of "[(0, 200), (10, - 300), (5, 20)]"]
  by simp

lemma radians_mono: "a \<le> b \<Longrightarrow> radians a \<le> radians b"
  by (simp add: radians_def mult_right_mono divide_right_mono)

lemma radians_minus: "radians (- a) = - radians a"
  by (simp add: radians_def)

lemma radians_90: "radians 90 = pi / 2"
  by (simp add: radians_def)

lemma sin_radians_bound:
  assumes "- 89 \<le> p" and "p \<le> 89"
  shows "\<bar>sin (radians p)\<bar> \<le> sin (radians 89)" and "sin (radians 89) < 1"
proof -
  have up: "radians p \<le> radians 89" "radians 89 \<le> pi / 2"
    using assms(2) radians_mono [of p 89] radians_mono [of 89 90] by (simp_all add: radians_90)
  have lo: "- radians 89 \<le> radians p" "- (pi / 2) \<le> - radians 89"
    using assms(1) radians_mono [of "- 89" p] up(2) by (simp_all add: radians_minus)
  have "sin (radians p) \<le> sin (radians 89)"
    using up lo by (intro sin_monotone_2pi_le) linarith+
  moreover have "sin (- radians 89) \<le> sin (radians p)"
    using up lo by (intro sin_monotone_2pi_le) linarith+
  ultimately show "\<bar>sin (radians p)\<bar> \<le> sin (radians 89)"
    by simp
  have "0 < cos (radians 89)"
    by (rule cos_radians_pos) simp_all
  then have "0 < (cos (radians 89))\<^sup>2"
    by simp
  moreover have "(sin (radians 89))\<^sup>2 + (cos (radians 89))\<^sup>2 = 1"
    by (rule sin_cos_squared_add)
  ultimately have "(sin (radians 89))\<^sup>2 < 1\<^sup>2"
    unfolding one_power2 by linarith
  then show "sin (radians 89) < 1"
    by (rule power2_less_imp_less) simp
qed

section \<open>The pitch clamp and the right vector\<close>

text \<open>
  Claim C8. For a pitch within \<open>[-89, 89]\<close> and any yaw (with the world-up vector
  \<open>(0, 1, 0)\<close> of the constructor and non-zero image dimensions) the recomputation
  completes; the forward vector it stores has \<open>dot forward world_up = sin(pitch)\<close>, of
  absolute value at most \<open>sin(89 degrees) < 1\<close>; the cross product of forward and world-up
  is not the zero vector, and its normalisation is defined and is the right vector.
\<close>

theorem pitch_clamp_keeps_right_defined:
  assumes "- 89 \<le> pitch c" and "pitch c \<le> 89"
    and "world_up c = Vec3 0 1 0"
    and "image_width c \<noteq> 0" and "image_height c \<noteq> 0"
  shows "\<exists>c'. update_camera_vectors c = Some c'
           \<and> dot (front c') (world_up c') = sin (radians (pitch c))
           \<and> \<bar>sin (radians (pitch c))\<bar> \<le> sin (radians 89)
           \<and> sin (radians 89) < 1
           \<and> \<bar>dot (front c') (world_up c')\<bar> < 1
           \<and> cross (front c') (world_up c') \<noteq> 0
           \<and> unit_vector (cross (front c') (world_up c')) = Some (camera_right c')"
proof -
  have "cos (radians (pitch c)) \<noteq> 0"
    using cos_radians_pos [OF assms(1,2)] by simp
  then obtain c' where c': "update_camera_vectors c = Some c'"
    using update_camera_vectors_defined [OF assms(4,5,3)] by blast
  note b = update_camera_vectors_basis [OF c']
  note f = update_camera_vectors_fields [OF c']
  have "front c' = Vec3 (cos (radians (yaw c)) * cos (radians (pitch c)))
                        (sin (radians (pitch c)))
                        (sin (radians (yaw c)) * cos (radians (pitch c)))"
    using b(1) by (simp add: unit_vector_of_unit front_raw_unit)
  then have d: "dot (front c') (world_up c') = sin (radians (pitch c))"
    by (simp add: f(7) assms(3) dot_def)
  note s = sin_radians_bound [OF assms(1,2)]
  have r: "unit_vector (cross (front c') (world_up c')) = Some (camera_right c')"
    using b(2) by (simp add: f(7))
  then have "cross (front c') (world_up c') \<noteq> 0"
    by (simp add: unit_vector_Some_iff)
  then show ?thesis
    using c' d s r by auto
qed

text \<open>The hypotheses of C8 hold at the clamp boundary, pitch 89.\<close>

theorem pitch_clamp_keeps_right_defined_witness:
  "- 89 \<le> pitch (camera_2x1\<lparr>pitch := 89\<rparr>) \<and> pitch (camera_2x1\<lparr>pitch := 89\<rparr>) \<le> 89
   \<and> world_up (camera_2x1\<lparr>pitch := 89\<rparr>) = Vec3 0 1 0
   \<and> image_width (camera_2x1\<lparr>pitch := 89\<rparr>) \<noteq> 0
   \<and> image_height (camera_2x1\<lparr>pitch := 89\<rparr>) \<noteq> 0
   \<and> (\<exists>c'. update_camera_vectors (camera_2x1\<lparr>pitch := 89\<rparr>) = Some c'
           \<and> dot (front c') (world_up c') = sin (radians (pitch (camera_2x1\<lparr>pitch := 89\<rparr>)))
           \<and> \<bar>sin (radians (pitch (camera_2x1\<lparr>pitch := 89\<rparr>)))\<bar> \<le> sin (radians 89)
           \<and> sin (radians 89) < 1
           \<and> \<bar>dot (front c') (world_up c')\<bar> < 1
           \<and> cross (front c') (world_up c') \<noteq> 0
           \<and> unit_vector (cross (front c') (world_up c')) = Some (camera_right c'))"
proof -
  have h: "- 89 \<le> pitch (camera_2x1\<lparr>pitch := 89\<rparr>)" "pitch (camera_2x1\<lparr>pitch := 89\<rparr>) \<le> 89"
    "world_up (camera_2x1\<lparr>pitch := 89\<rparr>) = Vec3 0 1 0"
    "image_width (camera_2x1\<lparr>pitch := 89\<rparr>) \<noteq> 0"
    "image_height (camera_2x1\<lparr>pitch := 89\<rparr>) \<noteq> 0"
    by (simp_all add: camera_2x1_def)
  show ?thesis
    using h pitch_clamp_keeps_right_defined [OF h] by blast
qed

section \<open>Ray generation and the position setter\<close>

text \<open>
  Claim C4. For every camera state and every pair of integers, inside the image or
  not, \<^verbatim>\<open>get_ray\<close> returns the ray from the camera position with direction
  \<open>(pixel00_loc + pixel_x * pixel_delta_u + pixel_y * pixel_delta_v) - position\<close>,
  given here also component by component. The function is a \<^verbatim>\<open>const\<close> member: it
  takes the camera state and returns the ray only, so no state is changed.
\<close>

theorem get_ray_formula:
  "origin (get_ray c pixel_x pixel_y) = camera_center c
   \<and> direction (get_ray c pixel_x pixel_y) =
       (pixel00_loc c + real_of_int pixel_x *\<^sub>R pixel_delta_u c
                      + real_of_int pixel_y *\<^sub>R pixel_delta_v c) - camera_center c
   \<and> e0 (direction (get_ray c pixel_x pixel_y)) =
       e0 (pixel00_loc c) + real_of_int pixel_x * e0 (pixel_delta_u c)
         + real_of_int pixel_y * e0 (pixel_delta_v c) - e0 (camera_center c)
   \<and> e1 (direction (get_ray c pixel_x pixel_y)) =
       e1 (pixel00_loc c) + real_of_int pixel_x * e1 (pixel_delta_u c)
         + real_of_int pixel_y * e1 (pixel_delta_v c) - e1 (camera_center c)
   \<and> e2 (direction (get_ray c pixel_x pixel_y)) =
       e2 (pixel00_loc c) + real_of_int pixel_x * e2 (pixel_delta_u c)
         + real_of_int pixel_y * e2 (pixel_delta_v c) - e2 (camera_center c)"
  by (simp add: get_ray_def Let_def)



lemma camera_2x1_up_to_date: "up_to_date camera_2x1"
  unfolding up_to_date_def
  by (rule update_camera_vectors_idem [OF Camera_2x1 [unfolded Camera_def]])

lemma reachable_up_to_date: "reachable c \<Longrightarrow> up_to_date c"
  using reachable_updated [of c] update_camera_vectors_idem
  by (auto simp: up_to_date_def)


section \<open>Translation by \<^verbatim>\<open>move\<close>\<close>

text \<open>
  Claim C10, amended. For every camera state whose derived members are up to date with
  its pose (every state reached by the constructor, \<^verbatim>\<open>move\<close> and \<^verbatim>\<open>rotate\<close> is
  one), \<^verbatim>\<open>move(offset)\<close> completes, keeps yaw, pitch, the three basis vectors and the
  two pixel delta vectors, adds \<open>offset\<close> to the position and to \<open>pixel00_loc\<close>, and
  so keeps the direction of every ray of \<^verbatim>\<open>get_ray\<close> and adds \<open>offset\<close> to its origin.
\<close>

theorem move_translates:
  assumes "up_to_date c"
  shows "\<exists>c'. move c offset = Some c'
           \<and> yaw c' = yaw c \<and> pitch c' = pitch c
           \<and> front c' = front c \<and> camera_right c' = camera_right c \<and> camera_up c' = camera_up c
           \<and> pixel_delta_u c' = pixel_delta_u c \<and> pixel_delta_v c' = pixel_delta_v c
           \<and> camera_center c' = camera_center c + offset
           \<and> pixel00_loc c' = pixel00_loc c + offset
           \<and> (\<forall>pixel_x pixel_y.
                 direction (get_ray c' pixel_x pixel_y) = direction (get_ray c pixel_x pixel_y)
               \<and> origin (get_ray c' pixel_x pixel_y) = origin (get_ray c pixel_x pixel_y) + offset)
           \<and> up_to_date c'"
proof -
  let ?c' = "c\<lparr>camera_center := camera_center c + offset,
               viewport_upper_left := viewport_upper_left c + offset,
               pixel00_loc := pixel00_loc c + offset\<rparr>"
  have m: "move c offset = Some ?c'"
    using assms by (simp add: move_def up_to_date_def update_camera_center)
  have "up_to_date ?c'"
    unfolding up_to_date_def
    by (rule update_camera_vectors_idem [OF m [unfolded move_def]])
  moreover have "direction (get_ray ?c' pixel_x pixel_y) = direction (get_ray c pixel_x pixel_y)"
    for pixel_x pixel_y
    by (simp add: get_ray_def Let_def vec3_eq_iff)
  moreover have "origin (get_ray ?c' pixel_x pixel_y) = origin (get_ray c pixel_x pixel_y) + offset"
    for pixel_x pixel_y
    by (simp add: get_ray_def Let_def)
  ultimately show ?thesis
    using m by simp
qed

text \<open>The 2 by 1 camera moved by \<open>(0, 1, 0)\<close>.\<close>

theorem move_translates_witness:
  "up_to_date camera_2x1
   \<and> (\<exists>c'. move camera_2x1 (Vec3 0 1 0) = Some c'
          \<and> front c' = Vec3 0 0 (- 1)
          \<and> camera_center c' = Vec3 0 1 0
          \<and> pixel00_loc c' = Vec3 (- 1) 1 (- 1)
          \<and> direction (get_ray c' 0 0) = Vec3 (- 1) 0 (- 1)
          \<and> origin (get_ray c' 0 0) = Vec3 0 1 0)"
proof -
  have h: "up_to_date camera_2x1"
    by (rule camera_2x1_up_to_date)
  have v: "front camera_2x1 = Vec3 0 0 (- 1)"
    "camera_center camera_2x1 + Vec3 0 1 0 = Vec3 0 1 0"
    "pixel00_loc camera_2x1 + Vec3 0 1 0 = Vec3 (- 1) 1 (- 1)"
    "direction (get_ray camera_2x1 0 0) = Vec3 (- 1) 0 (- 1)"
    "origin (get_ray camera_2x1 0 0) + Vec3 0 1 0 = Vec3 0 1 0"
    by (simp_all add: camera_2x1_def get_ray_def vec3_eq_iff)
  show ?thesis
    using h move_translates [OF h, of "Vec3 0 1 0"] by (auto simp: v)
qed

text \<open>
  Claim C10 as stated, for every camera state, fails after \<^verbatim>\<open>set_position\<close>: the
  2 by 1 camera set to \<open>(1, 0, 0)\<close> and then moved by \<open>(0, 1, 0)\<close> has its
  \<open>pixel00_loc\<close> go from \<open>(-1, 0, -1)\<close> to \<open>(0, 1, -1)\<close>, not to \<open>(-1, 1, -1)\<close>, and
  the direction of the ray of pixel \<open>(0, 0)\<close> changes from \<open>(-2, 0, -1)\<close> to
  \<open>(-1, 0, -1)\<close>.
\<close>

theorem move_after_set_position_counterexample:
  "Camera 2 1 (Vec3 0 0 0) 1 = Some camera_2x1
   \<and> move (set_position camera_2x1 (Vec3 1 0 0)) (Vec3 0 1 0)
       = Some (camera_2x1\<lparr>camera_center := Vec3 1 1 0,
                          viewport_upper_left := Vec3 (- 1) 2 (- 1),
                          pixel00_loc := Vec3 0 1 (- 1)\<rparr>)
   \<and> pixel00_loc (camera_2x1\<lparr>camera_center := Vec3 1 1 0,
                          viewport_upper_left := Vec3 (- 1) 2 (- 1),
                          pixel00_loc := Vec3 0 1 (- 1)\<rparr>)
       \<noteq> pixel00_loc (set_position camera_2x1 (Vec3 1 0 0)) + Vec3 0 1 0
   \<and> direction (get_ray (camera_2x1\<lparr>camera_center := Vec3 1 1 0,
                          viewport_upper_left := Vec3 (- 1) 2 (- 1),
                          pixel00_loc := Vec3 0 1 (- 1)\<rparr>) 0 0)
       \<noteq> direction (get_ray (set_position camera_2x1 (Vec3 1 0 0)) 0 0)"
proof -
  have u: "update_camera_vectors camera_2x1 = Some camera_2x1"
    using camera_2x1_up_to_date by (simp add: up_to_date_def)
  have "move (set_position camera_2x1 (Vec3 1 0 0)) (Vec3 0 1 0)
       = Some (camera_2x1\<lparr>camera_center := Vec3 1 1 0,
                          viewport_upper_left := Vec3 (- 1) 2 (- 1),
                          pixel00_loc := Vec3 0 1 (- 1)\<rparr>)"
    by (simp add: move_def set_position_def update_camera_center u)
       (simp add: camera_2x1_def vec3_eq_iff)
  then show ?thesis
    by (simp add: Camera_2x1 set_position_def get_ray_def) (simp add: camera_2x1_def vec3_eq_iff)
qed

section \<open>Ray-sphere intersection and shading\<close>

lemma length_squared_pos: "v \<noteq> 0 \<Longrightarrow> 0 < length_squared v"
  using length_squared_nonneg [of v] length_squared_eq_0_iff [of v] by linarith

text \<open>
  Claim C3. For every ray with a non-zero direction and every centre and radius,
  \<^verbatim>\<open>hit_sphere\<close> returns, with \<open>a = |direction|\<^sup>2\<close>,
  \<open>b = 2 ((origin - center) \<cdot> direction)\<close>, \<open>c = |origin - center|\<^sup>2 - radius\<^sup>2\<close> and
  \<open>discriminant = b\<^sup>2 - 4ac\<close>: the sentinel \<open>-1\<close> when the discriminant is negative, and
  otherwise exactly the near root \<open>(-b - sqrt discriminant) / (2a)\<close>. Whenever the two
  roots differ (positive discriminant) the value returned is not the far root
  \<open>(-b + sqrt discriminant) / (2a)\<close>.
\<close>

theorem hit_sphere_near_root:
  assumes "direction r \<noteq> 0"
  shows "hit_sphere center radius r =
           Some (let a = length_squared (direction r);
                     b = 2 * dot (origin r - center) (direction r);
                     c = length_squared (origin r - center) - radius * radius;
                     discriminant = b * b - 4 * a * c
                 in if discriminant < 0 then - 1
                    else (- b - sqrt discriminant) / (2 * a))
       \<and> (let a = length_squared (direction r);
               b = 2 * dot (origin r - center) (direction r);
               c = length_squared (origin r - center) - radius * radius;
               discriminant = b * b - 4 * a * c
           in 0 < discriminant \<longrightarrow>
                hit_sphere center radius r \<noteq> Some ((- b + sqrt discriminant) / (2 * a)))"
proof -
  have a: "0 < length_squared (direction r)"
    using assms by (rule length_squared_pos)
  have "x \<noteq> y \<Longrightarrow> x / (2 * length_squared (direction r)) \<noteq> y / (2 * length_squared (direction r))"
    for x y :: real
    using a by simp
  then show ?thesis
    using a by (auto simp: hit_sphere_def Let_def)
qed

text \<open>
  The ray of Scenario A has discriminant 1: the near root 0.5 is returned, the far
  root 1.5 is not.
\<close>

theorem hit_sphere_near_root_witness:
  "direction (Ray (Vec3 0 0 0) (Vec3 0 0 (- 1))) \<noteq> 0
   \<and> hit_sphere (Vec3 0 0 (- 1)) 0.5 (Ray (Vec3 0 0 0) (Vec3 0 0 (- 1))) = Some 0.5
   \<and> hit_sphere (Vec3 0 0 (- 1)) 0.5 (Ray (Vec3 0 0 0) (Vec3 0 0 (- 1))) \<noteq> Some 1.5"
proof -
  have h: "direction (Ray (Vec3 0 0 0) (Vec3 0 0 (- 1))) \<noteq> 0"
    by (simp add: zero_vec3_def)
  have v: "length_squared (Vec3 0 0 (- 1)) = 1"
    "dot (Vec3 0 0 0 - Vec3 0 0 (- 1)) (Vec3 0 0 (- 1)) = - 1"
    "length_squared (Vec3 0 0 0 - Vec3 0 0 (- 1)) = 1"
    by (simp_all add: length_squared_def dot_def)
  show ?thesis
    using h hit_sphere_near_root [OF h, of "Vec3 0 0 (- 1)" "0.5"]
    by (simp add: v Let_def)
qed

lemma length_vec_less_half:
  assumes "length_vec v < 0.5"
  shows "length_squared v < 0.25"
proof -
  have "0 \<le> length_vec v"
    by (simp add: length_vec_def length_squared_nonneg)
  then have "(length_vec v)\<^sup>2 < (0.5)\<^sup>2"
    using assms by (intro power_strict_mono) simp_all
  moreover have "(length_vec v)\<^sup>2 = length_squared v"
    by (simp add: length_vec_def length_squared_nonneg)
  ultimately show ?thesis
    by (simp add: power2_eq_square)
qed

lemma near_root_negative:
  fixes a b c :: real
  assumes a: "0 < a" and c: "c < 0"
  shows "0 \<le> b * b - 4 * a * c" and "(- b - sqrt (b * b - 4 * a * c)) / (2 * a) < 0"
proof -
  have ac: "0 < - (4 * a * c)"
    using a c by (simp add: mult_pos_neg)
  then have lt: "b * b < b * b - 4 * a * c"
    by simp
  then show "0 \<le> b * b - 4 * a * c"
    by (smt (verit) zero_le_square)
  have "sqrt (b * b) < sqrt (b * b - 4 * a * c)"
    using lt by (simp only: real_sqrt_less_iff)
  then have "\<bar>b\<bar> < sqrt (b * b - 4 * a * c)"
    by simp
  then have "- b - sqrt (b * b - 4 * a * c) < 0"
    by linarith
  then show "(- b - sqrt (b * b - 4 * a * c)) / (2 * a) < 0"
    using a by (simp add: divide_neg_pos)
qed

text \<open>
  Claim C6, amended. Over exact real arithmetic, for every ray whose origin is strictly
  inside the sphere of centre \<open>(0, 0, -1)\<close> and radius 0.5 and whose direction is not
  zero, \<^verbatim>\<open>hit_sphere\<close> returns a negative near root, so \<^verbatim>\<open>ray_color\<close> takes the miss
  branch and returns \<open>(1 - a) (1, 1, 1) + a (0.5, 0.7, 1.0)\<close> with
  \<open>a = 0.5 (u.y + 1)\<close>, \<open>u\<close> the normalised direction.
\<close>

theorem ray_color_inside_sphere:
  assumes "length_vec (origin r - Vec3 0 0 (- 1)) < 0.5" and "direction r \<noteq> 0"
  shows "\<exists>t u. hit_sphere (Vec3 0 0 (- 1)) 0.5 r = Some t \<and> t < 0
           \<and> unit_vector (direction r) = Some u
           \<and> ray_color r = Some ((1 - 0.5 * (e1 u + 1)) *\<^sub>R Vec3 1 1 1
                                  + (0.5 * (e1 u + 1)) *\<^sub>R Vec3 0.5 0.7 1)"
proof -
  define a where "a = length_squared (direction r)"
  define b where "b = 2 * dot (origin r - Vec3 0 0 (- 1)) (direction r)"
  define c where "c = length_squared (origin r - Vec3 0 0 (- 1)) - 0.5 * 0.5"
  have a: "0 < a"
    unfolding a_def using assms(2) by (rule length_squared_pos)
  have c: "c < 0"
    unfolding c_def using length_vec_less_half [OF assms(1)] by simp
  note n = near_root_negative [OF a c, where b = b]
  have hit: "hit_sphere (Vec3 0 0 (- 1)) 0.5 r = Some ((- b - sqrt (b * b - 4 * a * c)) / (2 * a))"
    using n(1) a unfolding a_def b_def c_def by (simp add: hit_sphere_def Let_def)
  obtain u where u: "unit_vector (direction r) = Some u"
    using assms(2) by (auto simp: unit_vector_Some_iff)
  have "ray_color r = Some ((1 - 0.5 * (e1 u + 1)) *\<^sub>R Vec3 1 1 1
                                  + (0.5 * (e1 u + 1)) *\<^sub>R Vec3 0.5 0.7 1)"
    using n(2) hit u by (simp add: ray_color_def sky_def Let_def)
  then show ?thesis
    using hit n(2) u by blast
qed

text \<open>A ray from the centre of the sphere, straight up: the colour is pure sky blue.\<close>

theorem ray_color_inside_sphere_witness:
  "length_vec (origin (Ray (Vec3 0 0 (- 1)) (Vec3 0 1 0)) - Vec3 0 0 (- 1)) < 0.5
   \<and> direction (Ray (Vec3 0 0 (- 1)) (Vec3 0 1 0)) \<noteq> 0
   \<and> (\<exists>t. hit_sphere (Vec3 0 0 (- 1)) 0.5 (Ray (Vec3 0 0 (- 1)) (Vec3 0 1 0)) = Some t \<and> t < 0)
   \<and> ray_color (Ray (Vec3 0 0 (- 1)) (Vec3 0 1 0)) = Some (Vec3 0.5 0.7 1)"
proof -
  have h: "length_vec (origin (Ray (Vec3 0 0 (- 1)) (Vec3 0 1 0)) - Vec3 0 0 (- 1)) < 0.5"
    "direction (Ray (Vec3 0 0 (- 1)) (Vec3 0 1 0)) \<noteq> 0"
    by (simp_all add: length_vec_def length_squared_def zero_vec3_def)
  have u: "unit_vector (Vec3 0 1 0) = Some u \<longleftrightarrow> u = Vec3 0 1 0" for u
    by (auto simp: unit_vector_axis)
  have v: "(1 - 0.5 * (e1 (Vec3 0 1 0) + 1)) *\<^sub>R Vec3 1 1 1
            + (0.5 * (e1 (Vec3 0 1 0) + 1)) *\<^sub>R Vec3 0.5 0.7 1 = Vec3 0.5 0.7 1"
    by (simp add: vec3_eq_iff)
  show ?thesis
    using h ray_color_inside_sphere [OF h] v by (auto simp: u)
qed

lemma scenario_A_hit:
  "hit_sphere (Vec3 0 0 (- 1)) 0.5 (Ray (Vec3 0 0 0) (Vec3 0 0 (- 1))) = Some 0.5"
  by (simp add: hit_sphere_def Let_def length_squared_def dot_def)

lemma scenario_A_point:
  "at_ray (Ray (Vec3 0 0 0) (Vec3 0 0 (- 1))) 0.5 - Vec3 0 0 (- 1) = Vec3 0 0 0.5"
  by (simp add: at_ray_def vec3_eq_iff)

lemma scenario_A_normal:
  "unit_vector (Vec3 0 0 0.5) = Some (Vec3 0 0 1)"
proof -
  have "length_vec (Vec3 0 0 0.5) = 0.5"
    by (simp add: length_vec_def length_squared_def real_sqrt_divide flip: power2_eq_square)
  then show ?thesis
    by (simp add: unit_vector_def divide_vec_def scaleR_vec3_def)
qed

lemma scenario_A_color:
  "ray_color (Ray (Vec3 0 0 0) (Vec3 0 0 (- 1))) = Some (Vec3 0.5 0.5 1)"
  using scenario_A_hit scenario_A_point scenario_A_normal
  by (simp add: ray_color_def scaleR_vec3_def)

text \<open>
  Claim C7, amended. For the ray from \<open>(0, 0, 0)\<close> in direction \<open>(0, 0, -1)\<close> against
  the sphere of centre \<open>(0, 0, -1)\<close> and radius 0.5, \<^verbatim>\<open>hit_sphere\<close> returns 0.5, the
  surface normal is \<open>(0, 0, 1)\<close>, and \<^verbatim>\<open>ray_color\<close> returns
  \<open>0.5 (0 + 1, 0 + 1, 1 + 1) = (0.5, 0.5, 1.0)\<close>.
\<close>

theorem scenario_A_shading:
  "hit_sphere (Vec3 0 0 (- 1)) 0.5 (Ray (Vec3 0 0 0) (Vec3 0 0 (- 1))) = Some 0.5
   \<and> unit_vector (at_ray (Ray (Vec3 0 0 0) (Vec3 0 0 (- 1))) 0.5 - Vec3 0 0 (- 1)) = Some (Vec3 0 0 1)
   \<and> ray_color (Ray (Vec3 0 0 0) (Vec3 0 0 (- 1))) = Some (Vec3 0.5 0.5 1)"
  using scenario_A_hit scenario_A_point scenario_A_normal scenario_A_color by simp

text \<open>Claim C7 as stated gives the colour \<open>(1, 1, 1)\<close>; \<^verbatim>\<open>ray_color\<close> does not return it.\<close>

theorem scenario_A_not_white_counterexample:
  "ray_color (Ray (Vec3 0 0 0) (Vec3 0 0 (- 1))) \<noteq> Some (Vec3 1 1 1)"
  using scenario_A_color by simp

section \<open>Quantisation of the colour channels\<close>

lemma clamp_range: "0 \<le> clamp c 0.0 0.999" "clamp c 0.0 0.999 \<le> 0.999"
  by (simp_all add: clamp_def)

lemma truncate_scaled_range:
  "0 \<le> trunc_toward_zero (256 * clamp c 0.0 0.999)" "trunc_toward_zero (256 * clamp c 0.0 0.999) \<le> 255"
proof -
  have x: "0 \<le> 256 * clamp c 0.0 0.999" "256 * clamp c 0.0 0.999 < 256"
    using clamp_range [of c] by simp_all
  then show "0 \<le> trunc_toward_zero (256 * clamp c 0.0 0.999)"
    by (simp add: trunc_toward_zero_def)
  have "\<lfloor>256 * clamp c 0.0 0.999\<rfloor> < 256"
    using x(2) by (simp add: floor_less_iff)
  then show "trunc_toward_zero (256 * clamp c 0.0 0.999) \<le> 255"
    using x(1) by (simp add: trunc_toward_zero_def)
qed

lemma to_uchar_scaled: "to_uchar (256 * clamp c 0.0 0.999) = Some (clamp_then_scale c)"
  using truncate_scaled_range [of c] by (simp add: to_uchar_def clamp_then_scale_def Let_def)

lemma truncate_saturated: "1 \<le> c \<Longrightarrow> trunc_toward_zero (256 * clamp c 0.0 0.999) = 255"
  by (simp add: clamp_def trunc_toward_zero_def floor_eq_iff)

lemma clamp_then_scale_saturated: "1 \<le> c \<Longrightarrow> clamp_then_scale c = 255"
  using truncate_saturated [of c] by (simp add: clamp_then_scale_def)

lemma store_Some:
  "0 \<le> k \<Longrightarrow> nat k < length fb \<Longrightarrow> store fb k v = Some (fb[nat k := v])"
  by (simp add: store_def)

lemma render_pixel_writes:
  assumes col: "ray_color (get_ray cam (int i) (int j)) = Some col"
    and len: "(j * W + i) * 3 + 2 < length fb"
  shows "render_pixel cam (int W) (int j) (int i) fb =
           Some (fb[(j * W + i) * 3 := clamp_then_scale (e0 col),
                    (j * W + i) * 3 + 1 := clamp_then_scale (e1 col),
                    (j * W + i) * 3 + 2 := clamp_then_scale (e2 col)])"
proof -
  define n where "n = (j * W + i) * 3"
  have idx: "(int j * int W + int i) * 3 = int n"
    by (simp add: n_def)
  have s: "store fb' (int n + int k) v = Some (fb'[n + k := v])"
    if "length fb' = length fb" and "k \<le> 2" for v fb' k
  proof -
    have "nat (int n + int k) = n + k"
      by (simp add: nat_add_distrib)
    moreover have "n + k < length fb'"
      using len that by (simp add: n_def)
    ultimately show ?thesis
      using store_Some [of "int n + int k" fb' v] by simp
  qed
  have s0: "store fb (int n + 0) v = Some (fb[n := v])" for v
    using s [of fb 0 v] by simp
  have s1: "store fb' (int n + 1) v = Some (fb'[n + 1 := v])" if "length fb' = length fb" for v fb'
    using s [of fb' 1 v] that by simp
  have s2: "store fb' (int n + 2) v = Some (fb'[n + 2 := v])" if "length fb' = length fb" for v fb'
    using s [of fb' 2 v] that by simp
  show ?thesis
    unfolding render_pixel_def Let_def col idx n_def [symmetric]
    by (simp only: option.case to_uchar_scaled s0 s1 s2 length_list_update)
qed

lemma for_loop_snoc:
  "for_loop (ks @ [k]) body s =
     (case for_loop ks body s of None \<Rightarrow> None | Some s' \<Rightarrow> body k s')"
  by (induction ks arbitrary: s) (auto split: option.splits)

lemma for_loop_upt:
  assumes init: "P 0 s"
    and step: "\<And>k t. k < n \<Longrightarrow> P k t \<Longrightarrow> \<exists>t'. body k t = Some t' \<and> P (Suc k) t'"
  shows "\<exists>s'. for_loop [0..<n] body s = Some s' \<and> P n s'"
proof -
  have "m \<le> n \<Longrightarrow> \<exists>s'. for_loop [0..<m] body s = Some s' \<and> P m s'" for m
  proof (induction m)
    case 0
    then show ?case by (simp add: init)
  next
    case (Suc m)
    then obtain t where t: "for_loop [0..<m] body s = Some t" "P m t"
      by auto
    obtain t' where "body m t = Some t'" "P (Suc m) t'"
      using step [of m t] Suc.prems t(2) by auto
    then show ?case
      by (simp add: for_loop_snoc t(1))
  qed
  then show ?thesis by simp
qed

lemma pixel_index_less:
  fixes i j W H :: nat
  assumes "i < W" "j < H"
  shows "j * W + i < W * H"
proof -
  have "j * W + i < j * W + W"
    using assms(1) by simp
  also have "\<dots> = Suc j * W"
    by simp
  also have "\<dots> \<le> H * W"
    using assms(2) by (intro mult_le_mono1) simp
  finally show ?thesis
    by (simp add: mult.commute)
qed

lemma swept_step:
  assumes inv: "swept W col fb (j * W + i) t"
    and i: "i < W" and j: "j < H"
    and len: "length fb = W * H * 3"
    and c: "ray_color (get_ray cam (int i) (int j)) = Some (col i j)"
  shows "\<exists>t'. render_pixel cam (int W) (int j) (int i) t = Some t' \<and> swept W col fb (j * W + Suc i) t'"
proof -
  let ?p = "j * W + i"
  let ?t' = "t[?p * 3 := clamp_then_scale (e0 (col i j)),
               ?p * 3 + 1 := clamp_then_scale (e1 (col i j)),
               ?p * 3 + 2 := clamp_then_scale (e2 (col i j))]"
  have lt: "length t = length fb"
    using inv by (simp add: swept_def)
  have b: "?p * 3 + 2 < length t"
    using pixel_index_less [OF i j] by (simp add: lt len)
  have r: "render_pixel cam (int W) (int j) (int i) t = Some ?t'"
    using c b by (rule render_pixel_writes)
  have md: "?p mod W = i" "?p div W = j"
    using i by simp_all
  have old: "?t' ! (p * 3 + k) = t ! (p * 3 + k)" if "p < ?p" "k \<le> 2" for p k
    using that by simp
  have new: "?t' ! (?p * 3) = clamp_then_scale (e0 (col i j))"
    "?t' ! (?p * 3 + 1) = clamp_then_scale (e1 (col i j))"
    "?t' ! (?p * 3 + 2) = clamp_then_scale (e2 (col i j))"
    using b by simp_all
  have "swept W col fb (Suc ?p) ?t'"
    unfolding swept_def
  proof (intro conjI allI impI)
    show "length ?t' = length fb"
      by (simp add: lt)
  next
    fix p assume "p < Suc ?p"
    then consider "p < ?p" | "p = ?p" by linarith
    then show "?t' ! (p * 3) = clamp_then_scale (e0 (col (p mod W) (p div W)))"
    proof cases
      case 1
      then show ?thesis using old [of p 0] inv by (simp add: swept_def)
    next
      case 2
      then show ?thesis using new(1) md by simp
    qed
  next
    fix p assume "p < Suc ?p"
    then consider "p < ?p" | "p = ?p" by linarith
    then show "?t' ! (p * 3 + 1) = clamp_then_scale (e1 (col (p mod W) (p div W)))"
    proof cases
      case 1
      then show ?thesis using old [of p 1] inv by (simp add: swept_def)
    next
      case 2
      then show ?thesis using new(2) md by simp
    qed
  next
    fix p assume "p < Suc ?p"
    then consider "p < ?p" | "p = ?p" by linarith
    then show "?t' ! (p * 3 + 2) = clamp_then_scale (e2 (col (p mod W) (p div W)))"
    proof cases
      case 1
      then show ?thesis using old [of p 2] inv by (simp add: swept_def)
    next
      case 2
      then show ?thesis using new(3) md by simp
    qed
  qed
  then show ?thesis
    using r by simp
qed

lemma render_scene_sweep:
  assumes len: "length fb = W * H * 3"
    and c: "\<And>i j. i < W \<Longrightarrow> j < H \<Longrightarrow> ray_color (get_ray cam (int i) (int j)) = Some (col i j)"
  shows "\<exists>fb'. render_scene cam (int W) (int H) fb = Some fb' \<and> swept W col fb (H * W) fb'"
proof -
  have row: "\<exists>t'. for_loop [0..<W] (\<lambda>i. render_pixel cam (int W) (int j) (int i)) t = Some t'
                 \<and> swept W col fb (Suc j * W) t'"
    if j: "j < H" and inv: "swept W col fb (j * W) t" for j t
  proof -
    have "\<exists>t'. for_loop [0..<W] (\<lambda>i. render_pixel cam (int W) (int j) (int i)) t = Some t'
                 \<and> swept W col fb (j * W + W) t'"
    proof (rule for_loop_upt [where P = "\<lambda>i. swept W col fb (j * W + i)"])
      show "swept W col fb (j * W + 0) t"
        using inv by simp
    next
      fix k u assume k: "k < W" and u: "swept W col fb (j * W + k) u"
      show "\<exists>t'. render_pixel cam (int W) (int j) (int k) u = Some t'
                    \<and> swept W col fb (j * W + Suc k) t'"
        by (rule swept_step [OF u k j len c [OF k j]])
    qed
    then show ?thesis by (simp add: add.commute)
  qed
  have "\<exists>fb'. for_loop [0..<H]
                 (\<lambda>j. for_loop [0..<W] (\<lambda>i. render_pixel cam (int W) (int j) (int i))) fb = Some fb'
               \<and> swept W col fb (H * W) fb'"
  proof (rule for_loop_upt [where P = "\<lambda>j. swept W col fb (j * W)"])
    show "swept W col fb (0 * W) fb"
      by (simp add: swept_def)
  next
    fix k t assume "k < H" "swept W col fb (k * W) t"
    then show "\<exists>t'. for_loop [0..<W] (\<lambda>i. render_pixel cam (int W) (int k) (int i)) t = Some t'
                  \<and> swept W col fb (Suc k * W) t'"
      by (rule row)
  qed
  then show ?thesis
    by (simp add: render_scene_def)
qed

lemma swept_cells:
  assumes s: "swept W col fb (H * W) fb'" and i: "i < W" and j: "j < H"
  shows "fb' ! ((j * W + i) * 3) = clamp_then_scale (e0 (col i j))
       \<and> fb' ! ((j * W + i) * 3 + 1) = clamp_then_scale (e1 (col i j))
       \<and> fb' ! ((j * W + i) * 3 + 2) = clamp_then_scale (e2 (col i j))"
proof -
  have "j * W + i < H * W"
    using pixel_index_less [OF i j] by (simp add: mult.commute)
  moreover have "(j * W + i) mod W = i" "(j * W + i) div W = j"
    using i by simp_all
  ultimately show ?thesis
    using s unfolding swept_def by metis
qed

text \<open>
  Claim C9. The conversion that \<^verbatim>\<open>render_scene\<close> applies to a channel \<open>c\<close> is defined
  and is the truncation of \<open>256 * clamp(c, 0.0, 0.999)\<close>, the clamp applied before the
  scaling; the truncated value lies in \<open>0..255\<close>, so 256 is never produced, and it is
  255 for every \<open>c \<ge> 1\<close>. After a sweep over a framebuffer of \<open>W * H * 3\<close> bytes in
  which every pixel has a real-valued colour, the three bytes of every pixel hold
  these values of its three channels.
\<close>

theorem framebuffer_quantisation:
  "to_uchar (256 * clamp c 0.0 0.999) = Some (clamp_then_scale c)
   \<and> 0 \<le> trunc_toward_zero (256 * clamp c 0.0 0.999)
   \<and> trunc_toward_zero (256 * clamp c 0.0 0.999) \<le> 255
   \<and> (1 \<le> c \<longrightarrow> clamp_then_scale c = 255)
   \<and> (length fb = W * H * 3
        \<and> (\<forall>i<W. \<forall>j<H. ray_color (get_ray cam (int i) (int j)) = Some (col i j)) \<longrightarrow>
      (\<exists>fb'. render_scene cam (int W) (int H) fb = Some fb' \<and> length fb' = length fb
         \<and> (\<forall>i<W. \<forall>j<H.
               fb' ! ((j * W + i) * 3) = clamp_then_scale (e0 (col i j))
             \<and> fb' ! ((j * W + i) * 3 + 1) = clamp_then_scale (e1 (col i j))
             \<and> fb' ! ((j * W + i) * 3 + 2) = clamp_then_scale (e2 (col i j)))))"
proof -
  have sweep: "\<exists>fb'. render_scene cam (int W) (int H) fb = Some fb' \<and> length fb' = length fb
         \<and> (\<forall>i<W. \<forall>j<H.
               fb' ! ((j * W + i) * 3) = clamp_then_scale (e0 (col i j))
             \<and> fb' ! ((j * W + i) * 3 + 1) = clamp_then_scale (e1 (col i j))
             \<and> fb' ! ((j * W + i) * 3 + 2) = clamp_then_scale (e2 (col i j)))"
    if len: "length fb = W * H * 3"
      and c: "\<forall>i<W. \<forall>j<H. ray_color (get_ray cam (int i) (int j)) = Some (col i j)"
  proof -
    obtain fb' where fb': "render_scene cam (int W) (int H) fb = Some fb'"
        "swept W col fb (H * W) fb'"
      using render_scene_sweep [OF len, of cam col] c by blast
    have "length fb' = length fb"
      using fb'(2) by (simp add: swept_def)
    then show ?thesis
      using fb'(1) swept_cells [OF fb'(2)] by blast
  qed
  show ?thesis
    using to_uchar_scaled [of c] truncate_scaled_range [of c] clamp_then_scale_saturated [of c] sweep
    by blast
qed

lemma sky_ray_left:
  "ray_color (Ray (Vec3 0 0 0) (Vec3 (- 1) 0 (- 1))) = Some (Vec3 0.75 0.85 1)"
proof -
  have h: "hit_sphere (Vec3 0 0 (- 1)) 0.5 (Ray (Vec3 0 0 0) (Vec3 (- 1) 0 (- 1))) = Some (- 1)"
    by (simp add: hit_sphere_def Let_def length_squared_def dot_def)
  have l: "length_vec (Vec3 (- 1) 0 (- 1)) = sqrt 2"
    by (simp add: length_vec_def length_squared_def)
  show ?thesis
    using h by (simp add: ray_color_def sky_def unit_vector_def l Let_def vec3_eq_iff)
qed

lemma sky_ray_right:
  "ray_color (Ray (Vec3 0 0 0) (Vec3 1 0 (- 1))) = Some (Vec3 0.75 0.85 1)"
proof -
  have h: "hit_sphere (Vec3 0 0 (- 1)) 0.5 (Ray (Vec3 0 0 0) (Vec3 1 0 (- 1))) = Some (- 1)"
    by (simp add: hit_sphere_def Let_def length_squared_def dot_def)
  have l: "length_vec (Vec3 1 0 (- 1)) = sqrt 2"
    by (simp add: length_vec_def length_squared_def)
  show ?thesis
    using h by (simp add: ray_color_def sky_def unit_vector_def l Let_def vec3_eq_iff)
qed

lemma camera_2x1_colors:
  "\<forall>i<2. \<forall>j<1. ray_color (get_ray camera_2x1 (int i) (int j)) = Some (Vec3 0.75 0.85 1)"
proof (intro allI impI)
  fix i j :: nat assume "i < 2" "j < 1"
  then have "j = 0" "i = 0 \<or> i = 1" by auto
  moreover have "get_ray camera_2x1 0 0 = Ray (Vec3 0 0 0) (Vec3 (- 1) 0 (- 1))"
    "get_ray camera_2x1 1 0 = Ray (Vec3 0 0 0) (Vec3 1 0 (- 1))"
    by (simp_all add: get_ray_def camera_2x1_def vec3_eq_iff)
  ultimately show "ray_color (get_ray camera_2x1 (int i) (int j)) = Some (Vec3 0.75 0.85 1)"
    using sky_ray_left sky_ray_right by auto
qed

lemma clamp_then_scale_values:
  "clamp_then_scale 0.75 = 192" "clamp_then_scale 0.85 = 217" "clamp_then_scale 1 = 255"
  by (simp_all add: clamp_then_scale_def clamp_def trunc_toward_zero_def floor_eq_iff)

text \<open>
  The sweep of the 2 by 1 camera: both rays miss the sphere with the colour
  \<open>(0.75, 0.85, 1.0)\<close>, stored as the bytes 192, 217 and 255.
\<close>

theorem framebuffer_quantisation_witness:
  "(1::real) \<le> 1 \<and> clamp_then_scale 1 = 255
   \<and> to_uchar (256 * clamp 1 0.0 0.999) = Some 255
   \<and> length [0, 0, 0, 0, 0, 0 :: 8 word] = 2 * 1 * 3
   \<and> ray_color (get_ray camera_2x1 0 0) = Some (Vec3 0.75 0.85 1)
   \<and> ray_color (get_ray camera_2x1 1 0) = Some (Vec3 0.75 0.85 1)
   \<and> render_scene camera_2x1 2 1 [0, 0, 0, 0, 0, 0] = Some [192, 217, 255, 192, 217, 255]"
proof -
  have h: "length [0, 0, 0, 0, 0, 0 :: 8 word] = 2 * 1 * 3
        \<and> (\<forall>i<2. \<forall>j<1. ray_color (get_ray camera_2x1 (int i) (int j)) = Some (Vec3 0.75 0.85 1))"
    using camera_2x1_colors by simp
  note q = framebuffer_quantisation [of 1 "[0, 0, 0, 0, 0, 0]" 2 1 camera_2x1 "\<lambda>i j. Vec3 0.75 0.85 1"]
  from q h obtain fb' where fb': "render_scene camera_2x1 (int 2) (int 1) [0, 0, 0, 0, 0, 0] = Some fb'"
    "length fb' = 6"
    "\<forall>i<2. \<forall>j<(1::nat). fb' ! ((j * 2 + i) * 3) = clamp_then_scale 0.75
        \<and> fb' ! ((j * 2 + i) * 3 + 1) = clamp_then_scale 0.85
        \<and> fb' ! ((j * 2 + i) * 3 + 2) = clamp_then_scale 1"
    by auto
  have "fb' ! 0 = 192 \<and> fb' ! 1 = 217 \<and> fb' ! 2 = 255
      \<and> fb' ! 3 = 192 \<and> fb' ! 4 = 217 \<and> fb' ! 5 = 255"
    using fb'(3) [rule_format, of 0 0] fb'(3) [rule_format, of 1 0] clamp_then_scale_values
    by (simp add: eval_nat_numeral)
  then have "fb' ! k = [192, 217, 255, 192, 217, 255] ! k" if "k < 6" for k
    using that by (auto simp: less_Suc_eq eval_nat_numeral)
  then have "fb' = [192, 217, 255, 192, 217, 255]"
    using fb'(2) by (intro nth_equalityI) simp_all
  then show ?thesis
    using q h fb'(1) h [THEN conjunct2, rule_format, of 0 0] h [THEN conjunct2, rule_format, of 1 0]
    by simp
qed

section \<open>Evaluation in binary64 arithmetic\<close>

lemma round_even_near:
  assumes "of_int n - 1 / 2 < y" and "y < of_int n + 1 / 2"
  shows "round_even y = n"
proof (cases "of_int n \<le> y")
  case True
  then have "\<lfloor>y\<rfloor> = n"
    using assms(2) by (intro floor_unique) simp_all
  then show ?thesis
    using assms(2) by (simp add: round_even_def Let_def)
next
  case False
  then have f: "\<lfloor>y\<rfloor> = n - 1"
    using assms(1) by (intro floor_unique) simp_all
  have "\<not> y - of_int (n - 1) < 1 / 2" "1 / 2 < y - of_int (n - 1)"
    using assms(1) by simp_all
  then show ?thesis
    unfolding round_even_def Let_def f by simp
qed

lemma binade_eq:
  assumes "2 powi e \<le> \<bar>x\<bar>" and "\<bar>x\<bar> < 2 powi (e + 1)"
  shows "binade x = e"
proof -
  have "0 < (2::real) powi e"
    by simp
  then have pos: "0 < \<bar>x\<bar>"
    using assms(1) by linarith
  have p: "(2::real) powr (of_int k) = 2 powi k" for k
    by (rule powr_real_of_int') simp_all
  have "(2::real) powr (of_int e) \<le> \<bar>x\<bar>"
    using assms(1) by (simp only: p)
  moreover have "\<bar>x\<bar> < (2::real) powr (of_int e + 1)"
    using assms(2) p [of "e + 1"] by simp
  ultimately have "\<lfloor>log 2 \<bar>x\<bar>\<rfloor> = e"
    using pos floor_log_eq_powr_iff [of "\<bar>x\<bar>" 2 e] by simp
  then show ?thesis
    by (simp add: binade_def)
qed

lemma to_double_eval:
  assumes "2 powi e \<le> \<bar>x\<bar>" and "\<bar>x\<bar> < 2 powi (e + 1)"
    and "- 1022 \<le> e" and "e < 1024"
    and "of_int n - 1 / 2 < x / 2 powi (e - 52)" and "x / 2 powi (e - 52) < of_int n + 1 / 2"
    and "y = of_int n * 2 powi (e - 52)"
    and "\<bar>y\<bar> < 2 powi 1024"
  shows "to_double x = Some y"
proof -
  have "0 < (2::real) powi e"
    by simp
  then have "0 < \<bar>x\<bar>"
    using assms(1) by linarith
  then have "x \<noteq> 0"
    by simp
  moreover have "max (binade x) (- 1022) = e"
    using binade_eq [OF assms(1,2)] assms(3) by simp
  moreover have "round_even (x / 2 powi (e - 52)) = n"
    using assms(5,6) by (rule round_even_near)
  ultimately show ?thesis
    using assms(7,8) by (simp add: to_double_def Let_def)
qed


lemma round_even_tie:
  assumes "y = of_int f + 1 / 2"
  shows "round_even y = (if even f then f else f + 1)"
proof -
  have "\<lfloor>y\<rfloor> = f"
    using assms by (intro floor_unique) simp_all
  then show ?thesis
    using assms by (simp add: round_even_def Let_def)
qed

lemma to_double_tie:
  assumes "2 powi e \<le> \<bar>x\<bar>" and "\<bar>x\<bar> < 2 powi (e + 1)"
    and "- 1022 \<le> e" and "e < 1024"
    and "x / 2 powi (e - 52) = of_int f + 1 / 2"
    and "y = of_int (if even f then f else f + 1) * 2 powi (e - 52)"
    and "\<bar>y\<bar> < 2 powi 1024"
  shows "to_double x = Some y"
proof -
  have "0 < (2::real) powi e"
    by simp
  then have "0 < \<bar>x\<bar>"
    using assms(1) by linarith
  then have "x \<noteq> 0"
    by simp
  moreover have "max (binade x) (- 1022) = e"
    using binade_eq [OF assms(1,2)] assms(3) by simp
  moreover have "round_even (x / 2 powi (e - 52)) = (if even f then f else f + 1)"
    using assms(5) by (rule round_even_tie)
  ultimately show ?thesis
    using assms(6,7) by (simp add: to_double_def Let_def)
qed

lemma fdiv_eval: "y \<noteq> 0 \<Longrightarrow> to_double (x / y) = Some z \<Longrightarrow> fdiv x y = Some z"
  by (simp add: fdiv_def)

lemma fsqrt_eval:
  assumes "0 \<le> lo" and "lo * lo \<le> x" and "0 < hi" and "x < hi * hi"
    and "2 powi e \<le> lo" and "hi \<le> 2 powi (e + 1)"
    and "- 1022 \<le> e" and "e < 1024"
    and "of_int n - 1 / 2 < lo / 2 powi (e - 52)" and "hi / 2 powi (e - 52) \<le> of_int n + 1 / 2"
    and "y = of_int n * 2 powi (e - 52)"
    and "\<bar>y\<bar> < 2 powi 1024"
  shows "fsqrt x = Some y"
proof -
  have x: "0 \<le> x"
    using assms(2) by (smt (verit) zero_le_square)
  have lo: "lo \<le> sqrt x"
    using assms(1,2) by (intro real_le_rsqrt) (simp add: power2_eq_square)
  have hi: "sqrt x < hi"
    using assms(3,4) by (intro real_less_lsqrt) (simp_all add: power2_eq_square)
  have p: "0 < (2::real) powi (e - 52)"
    by simp
  have "to_double (sqrt x) = Some y"
  proof (rule to_double_eval [where e = e and n = n])
    show "2 powi e \<le> \<bar>sqrt x\<bar>" using assms(5) lo by linarith
    show "\<bar>sqrt x\<bar> < 2 powi (e + 1)" using assms(6) hi x by simp
    show "- 1022 \<le> e" "e < 1024" by fact+
    have "lo / 2 powi (e - 52) \<le> sqrt x / 2 powi (e - 52)"
      using lo p by (simp add: divide_right_mono)
    then show "of_int n - 1 / 2 < sqrt x / 2 powi (e - 52)"
      using assms(9) by linarith
    have "sqrt x / 2 powi (e - 52) < hi / 2 powi (e - 52)"
      using hi p by (simp add: divide_strict_right_mono)
    then show "sqrt x / 2 powi (e - 52) < of_int n + 1 / 2"
      using assms(10) by linarith
    show "y = of_int n * 2 powi (e - 52)" "\<bar>y\<bar> < 2 powi 1024" by fact+
  qed
  then show ?thesis
    using x by (simp add: fsqrt_def)
qed

lemma decimals: "(5 / 10 :: real) = 1 / 2" "(10 / 10 :: real) = 1" "(0 / 10 :: real) = 0"
  by simp_all

lemma near_surface_hit:
  "hit_sphere_d (Vec3 0 0 (- 1)) (1 / 2) near_surface_ray = Some (4503599627370495 / 20282409603651670423947251286016)"
proof -
  have s1: "fsub (- 7711936667385371 / 18014398509481984) 0 = Some (- 7711936667385371 / 18014398509481984)"
    unfolding fsub_def
    by (rule to_double_eval [where e = "- 2" and n = "- 7711936667385371"]) simp_all

  have s2: "fsub (567675755396463 / 2251799813685248) 0 = Some (567675755396463 / 2251799813685248)"
    unfolding fsub_def
    by (rule to_double_eval [where e = "- 2" and n = "4541406043171704"]) simp_all

  have s3: "fsub (- 4249716976834955 / 4503599627370496) (- 1) = Some (253882650535541 / 4503599627370496)"
    unfolding fsub_def
    by (rule to_double_eval [where e = "- 5" and n = "8124244817137312"]) simp_all

  have s4: "fmul (7711936667385371 / 18014398509481984) (7711936667385371 / 18014398509481984) = Some (3301468385439487 / 18014398509481984)"
    unfolding fmul_def
    by (rule to_double_eval [where e = "- 3" and n = "6602936770878974"]) simp_all

  have s5: "fmul (- 567675755396463 / 2251799813685248) (- 567675755396463 / 2251799813685248) = Some (4579529832894663 / 72057594037927936)"
    unfolding fmul_def
    by (rule to_double_eval [where e = "- 4" and n = "4579529832894663"]) simp_all

  have s6: "fmul (- 253882650535541 / 4503599627370496) (- 253882650535541 / 4503599627370496) = Some (7327844314539975 / 2305843009213693952)"
    unfolding fmul_def
    by (rule to_double_eval [where e = "- 9" and n = "7327844314539975"]) simp_all

  have s7: "fadd (3301468385439487 / 18014398509481984) (4579529832894663 / 72057594037927936) = Some (4446350843663153 / 18014398509481984)"
    unfolding fadd_def
    by (rule to_double_tie [where e = "- 3" and f = "8892701687326305"]) simp_all

  have s8: "fadd (4446350843663153 / 18014398509481984) (7327844314539975 / 2305843009213693952) = Some (4503599627370497 / 18014398509481984)"
    unfolding fadd_def
    by (rule to_double_eval [where e = "- 2" and n = "4503599627370497"]) simp_all

  have s9: "fmul (- 7711936667385371 / 18014398509481984) (7711936667385371 / 18014398509481984) = Some (- 3301468385439487 / 18014398509481984)"
    unfolding fmul_def
    by (rule to_double_eval [where e = "- 3" and n = "- 6602936770878974"]) simp_all

  have s10: "fmul (567675755396463 / 2251799813685248) (- 567675755396463 / 2251799813685248) = Some (- 4579529832894663 / 72057594037927936)"
    unfolding fmul_def
    by (rule to_double_eval [where e = "- 4" and n = "- 4579529832894663"]) simp_all

  have s11: "fmul (253882650535541 / 4503599627370496) (- 253882650535541 / 4503599627370496) = Some (- 7327844314539975 / 2305843009213693952)"
    unfolding fmul_def
    by (rule to_double_eval [where e = "- 9" and n = "- 7327844314539975"]) simp_all

  have s12: "fadd (- 3301468385439487 / 18014398509481984) (- 4579529832894663 / 72057594037927936) = Some (- 4446350843663153 / 18014398509481984)"
    unfolding fadd_def
    by (rule to_double_tie [where e = "- 3" and f = "- 8892701687326306"]) simp_all

  have s13: "fadd (- 4446350843663153 / 18014398509481984) (- 7327844314539975 / 2305843009213693952) = Some (- 4503599627370497 / 18014398509481984)"
    unfolding fadd_def
    by (rule to_double_eval [where e = "- 2" and n = "- 4503599627370497"]) simp_all

  have s14: "fmul 2 (- 4503599627370497 / 18014398509481984) = Some (- 4503599627370497 / 9007199254740992)"
    unfolding fmul_def
    by (rule to_double_eval [where e = "- 1" and n = "- 4503599627370497"]) simp_all

  have s15: "fmul (- 7711936667385371 / 18014398509481984) (- 7711936667385371 / 18014398509481984) = Some (3301468385439487 / 18014398509481984)"
    unfolding fmul_def
    by (rule to_double_eval [where e = "- 3" and n = "6602936770878974"]) simp_all

  have s16: "fmul (567675755396463 / 2251799813685248) (567675755396463 / 2251799813685248) = Some (4579529832894663 / 72057594037927936)"
    unfolding fmul_def
    by (rule to_double_eval [where e = "- 4" and n = "4579529832894663"]) simp_all

  have s17: "fmul (253882650535541 / 4503599627370496) (253882650535541 / 4503599627370496) = Some (7327844314539975 / 2305843009213693952)"
    unfolding fmul_def
    by (rule to_double_eval [where e = "- 9" and n = "7327844314539975"]) simp_all

  have s18: "fmul (1 / 2) (1 / 2) = Some (1 / 4)"
    unfolding fmul_def
    by (rule to_double_eval [where e = "- 2" and n = "4503599627370496"]) simp_all

  have s19: "fsub (4503599627370497 / 18014398509481984) (1 / 4) = Some (1 / 18014398509481984)"
    unfolding fsub_def
    by (rule to_double_eval [where e = "- 54" and n = "4503599627370496"]) simp_all

  have s20: "fmul (- 4503599627370497 / 9007199254740992) (- 4503599627370497 / 9007199254740992) = Some (2251799813685249 / 9007199254740992)"
    unfolding fmul_def
    by (rule to_double_eval [where e = "- 2" and n = "4503599627370498"]) simp_all

  have s21: "fmul 4 (4503599627370497 / 18014398509481984) = Some (4503599627370497 / 4503599627370496)"
    unfolding fmul_def
    by (rule to_double_eval [where e = "0" and n = "4503599627370497"]) simp_all

  have s22: "fmul (4503599627370497 / 4503599627370496) (1 / 18014398509481984) = Some (4503599627370497 / 81129638414606681695789005144064)"
    unfolding fmul_def
    by (rule to_double_eval [where e = "- 54" and n = "4503599627370497"]) simp_all

  have s23: "fsub (2251799813685249 / 9007199254740992) (4503599627370497 / 81129638414606681695789005144064) = Some (4503599627370497 / 18014398509481984)"
    unfolding fsub_def
    by (rule to_double_eval [where e = "- 2" and n = "4503599627370497"]) simp_all

  have s24: "fsqrt (4503599627370497 / 18014398509481984) = Some (1 / 2)"
    by (rule fsqrt_eval [where lo = "1 / 2" and hi = "9007199254740993 / 18014398509481984"
          and e = "- 1" and n = "4503599627370496"]) simp_all

  have s25: "fsub (4503599627370497 / 9007199254740992) (1 / 2) = Some (1 / 9007199254740992)"
    unfolding fsub_def
    by (rule to_double_eval [where e = "- 53" and n = "4503599627370496"]) simp_all

  have s26: "fmul 2 (4503599627370497 / 18014398509481984) = Some (4503599627370497 / 9007199254740992)"
    unfolding fmul_def
    by (rule to_double_eval [where e = "- 1" and n = "4503599627370497"]) simp_all

  have s27: "fdiv (1 / 9007199254740992) (4503599627370497 / 9007199254740992) = Some (4503599627370495 / 20282409603651670423947251286016)"
    by (rule fdiv_eval, simp, rule to_double_eval [where e = "- 53" and n = "9007199254740990"]) simp_all

  have neg: "- (- 4503599627370497 / 9007199254740992) = (4503599627370497 / 9007199254740992 :: real)"
    by simp
  have nd: "(4503599627370497 / 18014398509481984 < (0::real)) = False"
    by simp
  show ?thesis
    unfolding hit_sphere_d_def near_surface_ray_def minus_d_def length_squared_d_def dot_d_def
    by (simp only: ray.sel vec3.sel Option.bind.simps if_False nd neg s1 s2 s3 s4 s5 s6 s7 s8 s9 s10 s11 s12 s13 s14 s15 s16 s17 s18 s19 s20 s21 s22 s23 s24 s25 s26 s27)
qed

lemma near_surface_normal_color:
  "normal_color_d near_surface_ray (4503599627370495 / 20282409603651670423947251286016) = Some (Vec3 (323815646838905 / 4503599627370496) (1693575662239087 / 2251799813685248) (2505682464220789 / 4503599627370496))"
proof -
  have s1: "fmul (4503599627370495 / 20282409603651670423947251286016) (7711936667385371 / 18014398509481984) = Some (7711936667385369 / 81129638414606681695789005144064)"
    unfolding fmul_def
    by (rule to_double_eval [where e = "- 54" and n = "7711936667385369"]) simp_all

  have s2: "fmul (4503599627370495 / 20282409603651670423947251286016) (- 567675755396463 / 2251799813685248) = Some (- 4541406043171703 / 81129638414606681695789005144064)"
    unfolding fmul_def
    by (rule to_double_eval [where e = "- 54" and n = "- 4541406043171703"]) simp_all

  have s3: "fmul (4503599627370495 / 20282409603651670423947251286016) (- 253882650535541 / 4503599627370496) = Some (- 4062122408568655 / 324518553658426726783156020576256)"
    unfolding fmul_def
    by (rule to_double_eval [where e = "- 57" and n = "- 8124244817137310"]) simp_all

  have s4: "fadd (- 7711936667385371 / 18014398509481984) (7711936667385369 / 81129638414606681695789005144064) = Some (- 7711936667385369 / 18014398509481984)"
    unfolding fadd_def
    by (rule to_double_eval [where e = "- 2" and n = "- 7711936667385369"]) simp_all

  have s5: "fadd (567675755396463 / 2251799813685248) (- 4541406043171703 / 81129638414606681695789005144064) = Some (4541406043171703 / 18014398509481984)"
    unfolding fadd_def
    by (rule to_double_eval [where e = "- 2" and n = "4541406043171703"]) simp_all

  have s6: "fadd (- 4249716976834955 / 4503599627370496) (- 4062122408568655 / 324518553658426726783156020576256) = Some (- 4249716976834955 / 4503599627370496)"
    unfolding fadd_def
    by (rule to_double_eval [where e = "- 1" and n = "- 8499433953669910"]) simp_all

  have s7: "fsub (- 7711936667385369 / 18014398509481984) 0 = Some (- 7711936667385369 / 18014398509481984)"
    unfolding fsub_def
    by (rule to_double_eval [where e = "- 2" and n = "- 7711936667385369"]) simp_all

  have s8: "fsub (4541406043171703 / 18014398509481984) 0 = Some (4541406043171703 / 18014398509481984)"
    unfolding fsub_def
    by (rule to_double_eval [where e = "- 2" and n = "4541406043171703"]) simp_all

  have s9: "fsub (- 4249716976834955 / 4503599627370496) (- 1) = Some (253882650535541 / 4503599627370496)"
    unfolding fsub_def
    by (rule to_double_eval [where e = "- 5" and n = "8124244817137312"]) simp_all

  have s10: "fmul (- 7711936667385369 / 18014398509481984) (- 7711936667385369 / 18014398509481984) = Some (3301468385439485 / 18014398509481984)"
    unfolding fmul_def
    by (rule to_double_eval [where e = "- 3" and n = "6602936770878970"]) simp_all

  have s11: "fmul (4541406043171703 / 18014398509481984) (4541406043171703 / 18014398509481984) = Some (4579529832894661 / 72057594037927936)"
    unfolding fmul_def
    by (rule to_double_eval [where e = "- 4" and n = "4579529832894661"]) simp_all

  have s12: "fmul (253882650535541 / 4503599627370496) (253882650535541 / 4503599627370496) = Some (7327844314539975 / 2305843009213693952)"
    unfolding fmul_def
    by (rule to_double_eval [where e = "- 9" and n = "7327844314539975"]) simp_all

  have s13: "fadd (3301468385439485 / 18014398509481984) (4579529832894661 / 72057594037927936) = Some (2223175421831575 / 9007199254740992)"
    unfolding fadd_def
    by (rule to_double_tie [where e = "- 3" and f = "8892701687326300"]) simp_all

  have s14: "fadd (2223175421831575 / 9007199254740992) (7327844314539975 / 2305843009213693952) = Some (9007199254740987 / 36028797018963968)"
    unfolding fadd_def
    by (rule to_double_eval [where e = "- 3" and n = "9007199254740987"]) simp_all

  have s15: "fsqrt (9007199254740987 / 36028797018963968) = Some (9007199254740989 / 18014398509481984)"
    by (rule fsqrt_eval [where lo = "9007199254740989 / 18014398509481984" and hi = "18014398509481979 / 36028797018963968"
          and e = "- 2" and n = "9007199254740989"]) simp_all

  have s16: "fdiv 1 (9007199254740989 / 18014398509481984) = Some (2251799813685249 / 1125899906842624)"
    by (rule fdiv_eval, simp, rule to_double_eval [where e = "1" and n = "4503599627370498"]) simp_all

  have s17: "fmul (2251799813685249 / 1125899906842624) (- 7711936667385369 / 18014398509481984) = Some (- 1927984166846343 / 2251799813685248)"
    unfolding fmul_def
    by (rule to_double_eval [where e = "- 1" and n = "- 7711936667385372"]) simp_all

  have s18: "fmul (2251799813685249 / 1125899906842624) (4541406043171703 / 18014398509481984) = Some (4541406043171705 / 9007199254740992)"
    unfolding fmul_def
    by (rule to_double_eval [where e = "- 1" and n = "4541406043171705"]) simp_all

  have s19: "fmul (2251799813685249 / 1125899906842624) (253882650535541 / 4503599627370496) = Some (2031061204284329 / 18014398509481984)"
    unfolding fmul_def
    by (rule to_double_eval [where e = "- 4" and n = "8124244817137316"]) simp_all

  have s20: "fadd (- 1927984166846343 / 2251799813685248) 1 = Some (323815646838905 / 2251799813685248)"
    unfolding fadd_def
    by (rule to_double_eval [where e = "- 3" and n = "5181050349422480"]) simp_all

  have s21: "fadd (4541406043171705 / 9007199254740992) 1 = Some (1693575662239087 / 1125899906842624)"
    unfolding fadd_def
    by (rule to_double_tie [where e = "0" and f = "6774302648956348"]) simp_all

  have s22: "fadd (2031061204284329 / 18014398509481984) 1 = Some (2505682464220789 / 2251799813685248)"
    unfolding fadd_def
    by (rule to_double_eval [where e = "0" and n = "5011364928441578"]) simp_all

  have s23: "fmul (1 / 2) (323815646838905 / 2251799813685248) = Some (323815646838905 / 4503599627370496)"
    unfolding fmul_def
    by (rule to_double_eval [where e = "- 4" and n = "5181050349422480"]) simp_all

  have s24: "fmul (1 / 2) (1693575662239087 / 1125899906842624) = Some (1693575662239087 / 2251799813685248)"
    unfolding fmul_def
    by (rule to_double_eval [where e = "- 1" and n = "6774302648956348"]) simp_all

  have s25: "fmul (1 / 2) (2505682464220789 / 2251799813685248) = Some (2505682464220789 / 4503599627370496)"
    unfolding fmul_def
    by (rule to_double_eval [where e = "- 1" and n = "5011364928441578"]) simp_all

  show ?thesis
    unfolding normal_color_d_def near_surface_ray_def at_d_def unit_vector_d_def divide_d_def
      length_d_def minus_d_def plus_d_def scale_d_def length_squared_d_def
    by (simp only: ray.sel vec3.sel Option.bind.simps decimals s1 s2 s3 s4 s5 s6 s7 s8 s9 s10 s11 s12 s13 s14 s15 s16 s17 s18 s19 s20 s21 s22 s23 s24 s25)
qed

lemma near_surface_sky:
  "sky_d (direction near_surface_ray) = Some (Vec3 (3945375475924335 / 4503599627370496) (8337330273005599 / 9007199254740992) 1)"
proof -

  have s1: "fmul (7711936667385371 / 18014398509481984) (7711936667385371 / 18014398509481984) = Some (3301468385439487 / 18014398509481984)"
    unfolding fmul_def
    by (rule to_double_eval [where e = "- 3" and n = "6602936770878974"]) simp_all

  have s2: "fmul (- 567675755396463 / 2251799813685248) (- 567675755396463 / 2251799813685248) = Some (4579529832894663 / 72057594037927936)"
    unfolding fmul_def
    by (rule to_double_eval [where e = "- 4" and n = "4579529832894663"]) simp_all

  have s3: "fmul (- 253882650535541 / 4503599627370496) (- 253882650535541 / 4503599627370496) = Some (7327844314539975 / 2305843009213693952)"
    unfolding fmul_def
    by (rule to_double_eval [where e = "- 9" and n = "7327844314539975"]) simp_all

  have s4: "fadd (3301468385439487 / 18014398509481984) (4579529832894663 / 72057594037927936) = Some (4446350843663153 / 18014398509481984)"
    unfolding fadd_def
    by (rule to_double_tie [where e = "- 3" and f = "8892701687326305"]) simp_all

  have s5: "fadd (4446350843663153 / 18014398509481984) (7327844314539975 / 2305843009213693952) = Some (4503599627370497 / 18014398509481984)"
    unfolding fadd_def
    by (rule to_double_eval [where e = "- 2" and n = "4503599627370497"]) simp_all

  have s6: "fsqrt (4503599627370497 / 18014398509481984) = Some (1 / 2)"
    by (rule fsqrt_eval [where lo = "1 / 2" and hi = "9007199254740993 / 18014398509481984"
          and e = "- 1" and n = "4503599627370496"]) simp_all

  have s7: "fdiv 1 (1 / 2) = Some 2"
    by (rule fdiv_eval, simp, rule to_double_eval [where e = "1" and n = "4503599627370496"]) simp_all

  have s8: "fmul 2 (7711936667385371 / 18014398509481984) = Some (7711936667385371 / 9007199254740992)"
    unfolding fmul_def
    by (rule to_double_eval [where e = "- 1" and n = "7711936667385371"]) simp_all

  have s9: "fmul 2 (- 567675755396463 / 2251799813685248) = Some (- 567675755396463 / 1125899906842624)"
    unfolding fmul_def
    by (rule to_double_eval [where e = "- 1" and n = "- 4541406043171704"]) simp_all

  have s10: "fmul 2 (- 253882650535541 / 4503599627370496) = Some (- 253882650535541 / 2251799813685248)"
    unfolding fmul_def
    by (rule to_double_eval [where e = "- 4" and n = "- 8124244817137312"]) simp_all

  have s11: "fadd (- 567675755396463 / 1125899906842624) 1 = Some (558224151446161 / 1125899906842624)"
    unfolding fadd_def
    by (rule to_double_eval [where e = "- 2" and n = "8931586423138576"]) simp_all

  have s12: "fmul (1 / 2) (558224151446161 / 1125899906842624) = Some (558224151446161 / 2251799813685248)"
    unfolding fmul_def
    by (rule to_double_eval [where e = "- 3" and n = "8931586423138576"]) simp_all

  have s13: "fsub 1 (558224151446161 / 2251799813685248) = Some (1693575662239087 / 2251799813685248)"
    unfolding fsub_def
    by (rule to_double_eval [where e = "- 1" and n = "6774302648956348"]) simp_all

  have s14: "fmul (1693575662239087 / 2251799813685248) 1 = Some (1693575662239087 / 2251799813685248)"
    unfolding fmul_def
    by (rule to_double_eval [where e = "- 1" and n = "6774302648956348"]) simp_all

  have s15: "to_double (7 / 10) = Some (3152519739159347 / 4503599627370496)"
    by (rule to_double_eval [where e = "- 1" and n = "6305039478318694"]) simp_all

  have s16: "fmul (558224151446161 / 2251799813685248) (1 / 2) = Some (558224151446161 / 4503599627370496)"
    unfolding fmul_def
    by (rule to_double_eval [where e = "- 4" and n = "8931586423138576"]) simp_all

  have s17: "fmul (558224151446161 / 2251799813685248) (3152519739159347 / 4503599627370496) = Some (6252110496197003 / 36028797018963968)"
    unfolding fmul_def
    by (rule to_double_eval [where e = "- 3" and n = "6252110496197003"]) simp_all

  have s18: "fmul (558224151446161 / 2251799813685248) 1 = Some (558224151446161 / 2251799813685248)"
    unfolding fmul_def
    by (rule to_double_eval [where e = "- 3" and n = "8931586423138576"]) simp_all

  have s19: "fadd (1693575662239087 / 2251799813685248) (558224151446161 / 4503599627370496) = Some (3945375475924335 / 4503599627370496)"
    unfolding fadd_def
    by (rule to_double_eval [where e = "- 1" and n = "7890750951848670"]) simp_all

  have s20: "fadd (1693575662239087 / 2251799813685248) (6252110496197003 / 36028797018963968) = Some (8337330273005599 / 9007199254740992)"
    unfolding fadd_def
    by (rule to_double_eval [where e = "- 1" and n = "8337330273005599"]) simp_all

  have s21: "fadd (1693575662239087 / 2251799813685248) (558224151446161 / 2251799813685248) = Some 1"
    unfolding fadd_def
    by (rule to_double_eval [where e = "0" and n = "4503599627370496"]) simp_all

  show ?thesis
    unfolding sky_d_def near_surface_ray_def unit_vector_d_def divide_d_def
      length_d_def plus_d_def scale_d_def length_squared_d_def
    by (simp only: ray.sel vec3.sel Option.bind.simps decimals  s1 s2 s3 s4 s5 s6 s7 s8 s9 s10 s11 s12 s13 s14 s15 s16 s17 s18 s19 s20 s21)
qed

lemma near_surface_double: "double_ray near_surface_ray"
proof -
  have s1: "to_double (- 7711936667385371 / 18014398509481984) = Some (- 7711936667385371 / 18014398509481984)"
    by (rule to_double_eval [where e = "- 2" and n = "- 7711936667385371"]) simp_all

  have s2: "to_double (567675755396463 / 2251799813685248) = Some (567675755396463 / 2251799813685248)"
    by (rule to_double_eval [where e = "- 2" and n = "4541406043171704"]) simp_all

  have s3: "to_double (- 4249716976834955 / 4503599627370496) = Some (- 4249716976834955 / 4503599627370496)"
    by (rule to_double_eval [where e = "- 1" and n = "- 8499433953669910"]) simp_all

  have s4: "to_double (7711936667385371 / 18014398509481984) = Some (7711936667385371 / 18014398509481984)"
    by (rule to_double_eval [where e = "- 2" and n = "7711936667385371"]) simp_all

  have s5: "to_double (- 567675755396463 / 2251799813685248) = Some (- 567675755396463 / 2251799813685248)"
    by (rule to_double_eval [where e = "- 2" and n = "- 4541406043171704"]) simp_all

  have s6: "to_double (- 253882650535541 / 4503599627370496) = Some (- 253882650535541 / 4503599627370496)"
    by (rule to_double_eval [where e = "- 5" and n = "- 8124244817137312"]) simp_all

  show ?thesis
    unfolding double_ray_def is_double_def near_surface_ray_def
    by (simp only: ray.sel vec3.sel s1 s2 s3 s4 s5 s6 simp_thms)
qed

lemma near_surface_inside:
  "length_vec (origin near_surface_ray - Vec3 0 0 (- 1)) < 0.5"
proof -
  have "length_squared (origin near_surface_ray - Vec3 0 0 (- 1)) < (1 / 2)\<^sup>2"
    by (simp add: near_surface_ray_def length_squared_def power2_eq_square)
  then have "sqrt (length_squared (origin near_surface_ray - Vec3 0 0 (- 1))) < 1 / 2"
    by (intro real_less_lsqrt) simp_all
  then show ?thesis
    by (simp add: length_vec_def)
qed

text \<open>
  Claim C6 as stated, for the program's \<^verbatim>\<open>double\<close> arithmetic, fails at a ray whose
  origin is strictly inside the sphere and within rounding distance of its surface:
  the squared distance rounds to \<open>0.25 + 2 powi (-54)\<close>, so \<open>c\<close> is \<open>2 powi (-54)\<close>, the near root
  is \<open>2 powi (-52) - 2 powi (-104)\<close>, positive, and \<^verbatim>\<open>ray_color\<close> takes the hit branch and
  returns a colour that is not the sky gradient.
\<close>

theorem ray_color_double_near_surface_counterexample:
  "double_ray near_surface_ray
   \<and> length_vec (origin near_surface_ray - Vec3 0 0 (- 1)) < 0.5
   \<and> direction near_surface_ray \<noteq> 0
   \<and> hit_sphere_d (Vec3 0 0 (- 1)) 0.5 near_surface_ray = Some (4503599627370495 / 20282409603651670423947251286016)
   \<and> (0::real) < 4503599627370495 / 20282409603651670423947251286016
   \<and> ray_color_d near_surface_ray = normal_color_d near_surface_ray (4503599627370495 / 20282409603651670423947251286016)
   \<and> ray_color_d near_surface_ray \<noteq> sky_d (direction near_surface_ray)"
proof -
  have h: "hit_sphere_d (Vec3 0 0 (- 1)) 0.5 near_surface_ray = Some (4503599627370495 / 20282409603651670423947251286016)"
    using near_surface_hit by simp
  have c: "ray_color_d near_surface_ray = normal_color_d near_surface_ray (4503599627370495 / 20282409603651670423947251286016)"
    unfolding ray_color_d_def h by simp
  have "normal_color_d near_surface_ray (4503599627370495 / 20282409603651670423947251286016) \<noteq> sky_d (direction near_surface_ray)"
    unfolding near_surface_normal_color near_surface_sky by simp
  then have n: "ray_color_d near_surface_ray \<noteq> sky_d (direction near_surface_ray)"
    by (simp only: c not_False_eq_True)
  have d: "direction near_surface_ray \<noteq> 0"
    by (simp add: near_surface_ray_def zero_vec3_def)
  show ?thesis
    using near_surface_double near_surface_inside d h c n by simp
qed

end
